theory Spec2Isabelle
  imports Main "HOL-Library.Word"
begin

unbundle bit_operations_syntax

section \<open>Machine types and the kernel helpers the probes call\<close>

type_synonym u8 = "8 word"
type_synonym u16 = "16 word"
type_synonym u32 = "32 word"
type_synonym u64 = "64 word"

text \<open>
  What one hook invocation reads from the kernel through helper calls:
  \<^verbatim>\<open>bpf_ktime_get_ns()\<close>, \<^verbatim>\<open>bpf_get_current_pid_tgid()\<close>, \<^verbatim>\<open>bpf_get_stackid(...)\<close>,
  \<^verbatim>\<open>bpf_get_current_comm(...)\<close> and \<^verbatim>\<open>bpf_get_smp_processor_id()\<close>. The values are inputs
  of the invocation; the probes only copy them. The clock is read by the hook body
  (\<open>ktime_get_ns\<close>) and again, later, by the helper that builds the event record
  (\<open>ktime_get_ns_emit\<close>); no hook emits more than one record.
\<close>

record hook_env =
  ktime_get_ns :: u64
  ktime_get_ns_emit :: u64
  current_pid_tgid :: u64
  get_stackid :: u64
  current_comm :: string
  smp_processor_id :: u32

text \<open>\<^verbatim>\<open>__u32 pid = bpf_get_current_pid_tgid() >> 32;\<close>\<close>

definition current_pid :: "hook_env \<Rightarrow> u32" where
  "current_pid e = ucast (drop_bit 32 (current_pid_tgid e))"

subsection \<open>Hash maps (\<^verbatim>\<open>BPF_MAP_TYPE_HASH\<close>)\<close>

text \<open>
  A hash map with \<^verbatim>\<open>max_entries\<close> slots is a finite partial function. A lookup returns the
  stored value or \<^verbatim>\<open>NULL\<close>. An update with \<^verbatim>\<open>BPF_ANY\<close> overwrites an existing key and inserts
  a new key only while fewer than \<^verbatim>\<open>max_entries\<close> keys are stored; otherwise it fails and the
  map stays as it is (every call site ignores the return code).
\<close>

definition bpf_map_lookup_elem :: "('k \<rightharpoonup> 'v) \<Rightarrow> 'k \<Rightarrow> 'v option" where
  "bpf_map_lookup_elem m k = m k"

definition bpf_map_update_elem :: "nat \<Rightarrow> ('k \<rightharpoonup> 'v) \<Rightarrow> 'k \<Rightarrow> 'v \<Rightarrow> ('k \<rightharpoonup> 'v)" where
  "bpf_map_update_elem max_entries m k v =
     (if m k \<noteq> None \<or> card (dom m) < max_entries then m(k \<mapsto> v) else m)"

definition bpf_map_delete_elem :: "('k \<rightharpoonup> 'v) \<Rightarrow> 'k \<Rightarrow> ('k \<rightharpoonup> 'v)" where
  "bpf_map_delete_elem m k = m(k := None)"

subsection \<open>Ring buffers (\<^verbatim>\<open>BPF_MAP_TYPE_RINGBUF\<close>)\<close>

text \<open>
  A ring buffer is the list of the records submitted and not yet consumed, oldest first.
  All three probes declare \<^verbatim>\<open>max_entries = 256 * 1024\<close> bytes. A record of \<open>sz\<close> bytes
  occupies \<open>sz\<close> plus an 8-byte header, rounded up to a multiple of 8. The kernel lets the
  producer get at most \<^verbatim>\<open>max_entries - 1\<close> bytes ahead of the consumer:
  \<^verbatim>\<open>bpf_ringbuf_reserve\<close> returns \<^verbatim>\<open>NULL\<close> when the new record would go beyond that, and
  the definition below says whether it returns a record. Each ring carries records of one
  size only.
\<close>

definition RINGBUF_MAX_ENTRIES :: nat where
  "RINGBUF_MAX_ENTRIES = 256 * 1024"

definition ringbuf_record_len :: "nat \<Rightarrow> nat" where
  "ringbuf_record_len sz = ((sz + 8 + 7) div 8) * 8"

definition bpf_ringbuf_reserve :: "'e list \<Rightarrow> nat \<Rightarrow> bool" where
  "bpf_ringbuf_reserve rb sz \<longleftrightarrow>
     length rb * ringbuf_record_len sz + ringbuf_record_len sz < RINGBUF_MAX_ENTRIES"

definition bpf_ringbuf_submit :: "'e list \<Rightarrow> 'e \<Rightarrow> 'e list" where
  "bpf_ringbuf_submit rb ev = rb @ [ev]"

text \<open>The external consumer takes the oldest record off the ring.\<close>

definition ringbuf_consume :: "'e list \<Rightarrow> 'e list" where
  "ringbuf_consume rb = tl rb"

section \<open>The memory tracker (\<^verbatim>\<open>memory_tracker.c\<close>)\<close>

definition MAX_ENTRIES :: nat where
  "MAX_ENTRIES = 10240"

datatype alloc_type =
  ALLOC_MALLOC | ALLOC_CALLOC | ALLOC_REALLOC | ALLOC_FREE
  | ALLOC_MMAP | ALLOC_MUNMAP | ALLOC_BRK | ALLOC_PAGE

text \<open>The enumerators count from \<^verbatim>\<open>ALLOC_MALLOC = 1\<close>.\<close>

fun alloc_type_val :: "alloc_type \<Rightarrow> u32" where
  "alloc_type_val ALLOC_MALLOC = 1"
| "alloc_type_val ALLOC_CALLOC = 2"
| "alloc_type_val ALLOC_REALLOC = 3"
| "alloc_type_val ALLOC_FREE = 4"
| "alloc_type_val ALLOC_MMAP = 5"
| "alloc_type_val ALLOC_MUNMAP = 6"
| "alloc_type_val ALLOC_BRK = 7"
| "alloc_type_val ALLOC_PAGE = 8"

text \<open>
  \<^verbatim>\<open>struct memory_event\<close>; the fields carry the prefix \<open>me_\<close> because several structs of the
  three probes share field names. Its size is 72 bytes.
\<close>

record memory_event =
  me_timestamp :: u64
  me_pid :: u32
  me_tid :: u32
  me_addr :: u64
  me_size :: u64
  me_old_addr :: u64
  me_type :: u32
  me_flags :: u32
  me_stack_id :: u64
  me_comm :: string

definition sizeof_memory_event :: nat where
  "sizeof_memory_event = 72"

record process_memory =
  total_allocated :: u64
  total_freed :: u64
  current_usage :: u64
  peak_usage :: u64
  allocation_count :: u64
  free_count :: u64
  page_faults :: u64
  major_faults :: u64
  rss_pages :: u64
  vmem_pages :: u64

record system_memory =
  total_memory :: u64
  free_memory :: u64
  available_memory :: u64
  cached_memory :: u64
  buffer_memory :: u64
  slab_memory :: u64
  page_cache_size :: u64
  memory_pressure :: u32

text \<open>\<^verbatim>\<open>struct allocation_info\<close>, fields prefixed \<open>ai_\<close>.\<close>

record allocation_info =
  ai_size :: u64
  ai_timestamp :: u64
  ai_stack_id :: u64
  ai_pid :: u32

text \<open>
  The maps of the probe. \<^verbatim>\<open>system_memory_map\<close> is an array of one element, always present.
  \<^verbatim>\<open>stack_traces\<close> is written by \<^verbatim>\<open>bpf_get_stackid\<close> only and \<^verbatim>\<open>config_map\<close> is never
  accessed, so neither is part of the state. The ring \<^verbatim>\<open>events\<close> is \<open>mem_events\<close>.
\<close>

record mem_state =
  process_memory_map :: "u32 \<rightharpoonup> process_memory"
  allocation_map :: "u64 \<rightharpoonup> allocation_info"
  system_memory_map :: system_memory
  mem_events :: "memory_event list"

text \<open>\<^verbatim>\<open>struct process_memory new_mem = {};\<close>\<close>

definition new_mem :: process_memory where
  "new_mem = \<lparr>total_allocated = 0, total_freed = 0, current_usage = 0, peak_usage = 0,
     allocation_count = 0, free_count = 0, page_faults = 0, major_faults = 0,
     rss_pages = 0, vmem_pages = 0\<rparr>"

definition send_memory_event ::
  "hook_env \<Rightarrow> u32 \<Rightarrow> u64 \<Rightarrow> u64 \<Rightarrow> u32 \<Rightarrow> u64 \<Rightarrow> mem_state \<Rightarrow> mem_state" where
  "send_memory_event e pid addr sz type old_addr s =
     (if \<not> bpf_ringbuf_reserve (mem_events s) sizeof_memory_event then s
      else s\<lparr>mem_events := bpf_ringbuf_submit (mem_events s)
             \<lparr>me_timestamp = ktime_get_ns_emit e,
              me_pid = pid,
              me_tid = ucast (current_pid_tgid e),
              me_addr = addr,
              me_size = sz,
              me_old_addr = old_addr,
              me_type = type,
              me_flags = 0,
              me_stack_id = get_stackid e,
              me_comm = current_comm e\<rparr>\<rparr>)"

text \<open>
  The lookup, insert-on-miss, lookup-again idiom that \<^verbatim>\<open>update_process_memory\<close>,
  \<^verbatim>\<open>trace_page_fault\<close> and \<^verbatim>\<open>sample_memory_stats\<close> each write out: the result is the map after
  the possible insertion; the caller looks the key up in it again.
\<close>

definition process_memory_get_or_create ::
  "(u32 \<rightharpoonup> process_memory) \<Rightarrow> u32 \<Rightarrow> (u32 \<rightharpoonup> process_memory)" where
  "process_memory_get_or_create m pid =
     (case bpf_map_lookup_elem m pid of
        None \<Rightarrow> bpf_map_update_elem MAX_ENTRIES m pid new_mem
      | Some mem \<Rightarrow> m)"

text \<open>
  The body of \<^verbatim>\<open>update_process_memory\<close> after the record is found (lines 161 to 174).
  \<^verbatim>\<open>size_delta\<close> is declared \<^verbatim>\<open>__s64\<close>; added to, subtracted from and compared with the
  \<^verbatim>\<open>__u64\<close> fields it is converted to \<^verbatim>\<open>__u64\<close>, so it is a 64-bit word here and the
  comparison is unsigned.
\<close>

definition account :: "process_memory \<Rightarrow> u64 \<Rightarrow> u32 \<Rightarrow> process_memory" where
  "account mem size_delta is_allocation =
     (if is_allocation \<noteq> 0 then
        (let mem1 = mem\<lparr>total_allocated := total_allocated mem + size_delta,
                        allocation_count := allocation_count mem + 1,
                        current_usage := current_usage mem + size_delta\<rparr>
         in if current_usage mem1 > peak_usage mem1
            then mem1\<lparr>peak_usage := current_usage mem1\<rparr> else mem1)
      else
        (let mem1 = mem\<lparr>total_freed := total_freed mem + size_delta,
                        free_count := free_count mem + 1\<rparr>
         in if current_usage mem1 \<ge> size_delta
            then mem1\<lparr>current_usage := current_usage mem1 - size_delta\<rparr> else mem1))"

definition update_process_memory :: "u32 \<Rightarrow> u64 \<Rightarrow> u32 \<Rightarrow> mem_state \<Rightarrow> mem_state" where
  "update_process_memory pid size_delta is_allocation s =
     (let m = process_memory_get_or_create (process_memory_map s) pid
      in case bpf_map_lookup_elem m pid of
           None \<Rightarrow> s\<lparr>process_memory_map := m\<rparr>
         | Some mem \<Rightarrow> s\<lparr>process_memory_map := m(pid \<mapsto> account mem size_delta is_allocation)\<rparr>)"

definition trace_malloc :: "hook_env \<Rightarrow> u64 \<Rightarrow> mem_state \<Rightarrow> mem_state" where
  "trace_malloc e sz s =
     (let pid = current_pid e
      in if pid = 0 \<or> sz = 0 then s
         else send_memory_event e pid 0 sz (alloc_type_val ALLOC_MALLOC) 0 s)"

definition trace_malloc_ret :: "hook_env \<Rightarrow> u64 \<Rightarrow> mem_state \<Rightarrow> mem_state" where
  "trace_malloc_ret e addr s =
     (let pid = current_pid e
      in if pid = 0 \<or> addr = 0 then s else s)"

definition trace_free :: "hook_env \<Rightarrow> u64 \<Rightarrow> mem_state \<Rightarrow> mem_state" where
  "trace_free e addr s =
     (let pid = current_pid e
      in if pid = 0 \<or> addr = 0 then s
         else (case bpf_map_lookup_elem (allocation_map s) addr of
                 None \<Rightarrow> send_memory_event e pid addr 0 (alloc_type_val ALLOC_FREE) 0 s
               | Some info \<Rightarrow>
                   (let sz = ai_size info;
                        s1 = s\<lparr>allocation_map := bpf_map_delete_elem (allocation_map s) addr\<rparr>;
                        s2 = update_process_memory pid sz 0 s1
                    in send_memory_event e pid addr sz (alloc_type_val ALLOC_FREE) 0 s2)))"

definition trace_mmap_enter :: "hook_env \<Rightarrow> u64 \<Rightarrow> mem_state \<Rightarrow> mem_state" where
  "trace_mmap_enter e sz s =
     (let pid = current_pid e
      in if pid = 0 \<or> sz = 0 then s
         else send_memory_event e pid 0 sz (alloc_type_val ALLOC_MMAP) 0 s)"

text \<open>\<^verbatim>\<open>ctx->ret\<close> is a \<^verbatim>\<open>long\<close>; the hook stores it in a \<^verbatim>\<open>__u64\<close> and tests its sign.\<close>

definition trace_mmap_exit :: "hook_env \<Rightarrow> u64 \<Rightarrow> mem_state \<Rightarrow> mem_state" where
  "trace_mmap_exit e addr s =
     (let pid = current_pid e
      in if pid = 0 \<or> sint addr < 0 then s
         else (let info = \<lparr>ai_size = 0, ai_timestamp = ktime_get_ns e,
                            ai_stack_id = 0, ai_pid = pid\<rparr>
               in s\<lparr>allocation_map :=
                      bpf_map_update_elem (MAX_ENTRIES * 4) (allocation_map s) addr info\<rparr>))"

definition trace_munmap :: "hook_env \<Rightarrow> u64 \<Rightarrow> u64 \<Rightarrow> mem_state \<Rightarrow> mem_state" where
  "trace_munmap e addr sz s =
     (let pid = current_pid e
      in if pid = 0 \<or> addr = 0 then s
         else (case bpf_map_lookup_elem (allocation_map s) addr of
                 None \<Rightarrow> send_memory_event e pid addr sz (alloc_type_val ALLOC_MUNMAP) 0 s
               | Some info \<Rightarrow>
                   (let s1 = s\<lparr>allocation_map := bpf_map_delete_elem (allocation_map s) addr\<rparr>;
                        s2 = update_process_memory pid sz 0 s1
                    in send_memory_event e pid addr sz (alloc_type_val ALLOC_MUNMAP) 0 s2)))"

definition trace_brk :: "hook_env \<Rightarrow> u64 \<Rightarrow> mem_state \<Rightarrow> mem_state" where
  "trace_brk e addr s =
     (let pid = current_pid e
      in if pid = 0 then s
         else send_memory_event e pid addr 0 (alloc_type_val ALLOC_BRK) 0 s)"

definition trace_page_fault :: "hook_env \<Rightarrow> u64 \<Rightarrow> u32 \<Rightarrow> mem_state \<Rightarrow> mem_state" where
  "trace_page_fault e address error_code s =
     (let pid = current_pid e
      in if pid = 0 then s
         else (let m = process_memory_get_or_create (process_memory_map s) pid
               in case bpf_map_lookup_elem m pid of
                    None \<Rightarrow> s\<lparr>process_memory_map := m\<rparr>
                  | Some mem \<Rightarrow>
                      (let mem1 = mem\<lparr>page_faults := page_faults mem + 1\<rparr>;
                           mem2 = (if error_code AND 4 \<noteq> 0
                                   then mem1\<lparr>major_faults := major_faults mem1 + 1\<rparr>
                                   else mem1)
                       in send_memory_event e pid address 4096 (alloc_type_val ALLOC_PAGE) 0
                            (s\<lparr>process_memory_map := m(pid \<mapsto> mem2)\<rparr>))))"

definition trace_memory_pressure :: "mem_state \<Rightarrow> mem_state" where
  "trace_memory_pressure s =
     s\<lparr>system_memory_map :=
         (system_memory_map s)\<lparr>memory_pressure := memory_pressure (system_memory_map s) + 1\<rparr>\<rparr>"

definition trace_oom_victim :: "hook_env \<Rightarrow> u32 \<Rightarrow> mem_state \<Rightarrow> mem_state" where
  "trace_oom_victim e pid s = send_memory_event e pid 0 0 0xFF 0 s"

text \<open>
  \<^verbatim>\<open>sample_memory_stats\<close> reads \<^verbatim>\<open>task->mm\<close> and, when it is not \<^verbatim>\<open>NULL\<close>,
  \<^verbatim>\<open>mm->rss_stat.count[0].counter\<close> and \<^verbatim>\<open>mm->total_vm\<close>; the argument is what these reads
  return: \<open>None\<close> for a null \<^verbatim>\<open>mm\<close>, otherwise the two values.
\<close>

definition sample_memory_stats :: "hook_env \<Rightarrow> (u64 \<times> u64) option \<Rightarrow> mem_state \<Rightarrow> mem_state" where
  "sample_memory_stats e mm s =
     (let pid = current_pid e
      in if pid = 0 then s
         else (case mm of
                 None \<Rightarrow> s
               | Some (rss, vmem) \<Rightarrow>
                   (let m = process_memory_get_or_create (process_memory_map s) pid
                    in case bpf_map_lookup_elem m pid of
                         None \<Rightarrow> s\<lparr>process_memory_map := m\<rparr>
                       | Some mem \<Rightarrow>
                           s\<lparr>process_memory_map :=
                               m(pid \<mapsto> mem\<lparr>rss_pages := rss, vmem_pages := vmem\<rparr>)\<rparr>)))"

text \<open>
  \<^verbatim>\<open>__u64 size = (1ULL << order) * 4096;\<close> with \<^verbatim>\<open>order\<close> an \<^verbatim>\<open>unsigned int\<close>. The kernel
  passes orders far below 64, where the C shift is defined; for larger ones the compiled
  64-bit shift uses the low six bits of the count.
\<close>

definition pages_to_bytes :: "u32 \<Rightarrow> u64" where
  "pages_to_bytes order = push_bit (unat order mod 64) 1 * 4096"

definition alloc_pages :: "hook_env \<Rightarrow> u32 \<Rightarrow> mem_state \<Rightarrow> mem_state" where
  "alloc_pages e order s =
     (let pid = current_pid e; sz = pages_to_bytes order
      in if pid = 0 then s
         else send_memory_event e pid 0 sz (alloc_type_val ALLOC_PAGE) 0
                (update_process_memory pid sz 1 s))"

definition free_pages :: "hook_env \<Rightarrow> u32 \<Rightarrow> mem_state \<Rightarrow> mem_state" where
  "free_pages e order s =
     (let pid = current_pid e; sz = pages_to_bytes order
      in if pid = 0 then s
         else update_process_memory pid sz 0 s)"

text \<open>
  One step of the memory probe: a hook fires with the values it reads, or the external
  consumer takes a record off the ring.
\<close>

datatype mem_hook =
  Malloc hook_env u64
  | MallocRet hook_env u64
  | Free hook_env u64
  | MmapEnter hook_env u64
  | MmapExit hook_env u64
  | Munmap hook_env u64 u64
  | Brk hook_env u64
  | PageFault hook_env u64 u32
  | MemoryPressure
  | OomVictim hook_env u32
  | SampleMemoryStats hook_env "(u64 \<times> u64) option"
  | AllocPages hook_env u32
  | FreePages hook_env u32
  | MemConsume

fun mem_step :: "mem_hook \<Rightarrow> mem_state \<Rightarrow> mem_state" where
  "mem_step (Malloc e sz) s = trace_malloc e sz s"
| "mem_step (MallocRet e addr) s = trace_malloc_ret e addr s"
| "mem_step (Free e addr) s = trace_free e addr s"
| "mem_step (MmapEnter e sz) s = trace_mmap_enter e sz s"
| "mem_step (MmapExit e addr) s = trace_mmap_exit e addr s"
| "mem_step (Munmap e addr sz) s = trace_munmap e addr sz s"
| "mem_step (Brk e addr) s = trace_brk e addr s"
| "mem_step (PageFault e address error_code) s = trace_page_fault e address error_code s"
| "mem_step MemoryPressure s = trace_memory_pressure s"
| "mem_step (OomVictim e pid) s = trace_oom_victim e pid s"
| "mem_step (SampleMemoryStats e mm) s = sample_memory_stats e mm s"
| "mem_step (AllocPages e order) s = alloc_pages e order s"
| "mem_step (FreePages e order) s = free_pages e order s"
| "mem_step MemConsume s = s\<lparr>mem_events := ringbuf_consume (mem_events s)\<rparr>"

fun mem_run :: "mem_hook list \<Rightarrow> mem_state \<Rightarrow> mem_state" where
  "mem_run [] s = s"
| "mem_run (h # hs) s = mem_run hs (mem_step h s)"

text \<open>The probe as loaded: empty hash maps, a zeroed array element, an empty ring.\<close>

definition mem_init :: mem_state where
  "mem_init = \<lparr>process_memory_map = Map.empty, allocation_map = Map.empty,
     system_memory_map = \<lparr>total_memory = 0, free_memory = 0, available_memory = 0,
       cached_memory = 0, buffer_memory = 0, slab_memory = 0, page_cache_size = 0,
       memory_pressure = 0\<rparr>,
     mem_events = []\<rparr>"

section \<open>The TCP flow monitor (\<^verbatim>\<open>tcp_flow.c\<close>)\<close>

definition AF_INET :: u16 where
  "AF_INET = 2"

text \<open>
  Constants of the kernel headers (\<^verbatim>\<open>vmlinux.h\<close>): \<^verbatim>\<open>IPPROTO_TCP = 6\<close>,
  \<^verbatim>\<open>TCP_ESTABLISHED = 1\<close>, \<^verbatim>\<open>TCP_SYN_SENT = 2\<close>, \<^verbatim>\<open>TCP_SYN_RECV = 3\<close>, \<^verbatim>\<open>TCP_CLOSE = 7\<close>.
\<close>

definition IPPROTO_TCP :: u8 where
  "IPPROTO_TCP = 6"

definition TCP_ESTABLISHED :: u32 where
  "TCP_ESTABLISHED = 1"

definition TCP_SYN_SENT :: u32 where
  "TCP_SYN_SENT = 2"

definition TCP_SYN_RECV :: u32 where
  "TCP_SYN_RECV = 3"

definition TCP_CLOSE :: u32 where
  "TCP_CLOSE = 7"

text \<open>\<^verbatim>\<open>bpf_ntohs\<close> on a little-endian host: the two bytes change places.\<close>

definition bpf_ntohs :: "u16 \<Rightarrow> u16" where
  "bpf_ntohs x = push_bit 8 x OR drop_bit 8 x"

record flow_key =
  saddr :: u32
  daddr :: u32
  sport :: u16
  dport :: u16
  protocol :: u8

record flow_data =
  bytes_tx :: u64
  bytes_rx :: u64
  packets_tx :: u64
  packets_rx :: u64
  first_seen :: u64
  last_seen :: u64
  rtt_samples :: u32
  rtt_total :: u32
  state :: u8

text \<open>\<^verbatim>\<open>struct tcp_event\<close>, fields prefixed \<open>te_\<close>; 56 bytes with its padding.\<close>

record tcp_event =
  te_timestamp :: u64
  te_pid :: u32
  te_saddr :: u32
  te_daddr :: u32
  te_sport :: u16
  te_dport :: u16
  te_bytes :: u32
  te_rtt :: u32
  te_event_type :: u8
  te_comm :: string

definition sizeof_tcp_event :: nat where
  "sizeof_tcp_event = 56"

text \<open>
  What the reads of \<^verbatim>\<open>inet_saddr\<close>, \<^verbatim>\<open>inet_daddr\<close>, \<^verbatim>\<open>inet_sport\<close> and \<^verbatim>\<open>inet_dport\<close>
  (\<^verbatim>\<open>BPF_CORE_READ_INTO\<close>) return for the socket of the event.
\<close>

record sock =
  inet_saddr :: u32
  inet_daddr :: u32
  inet_sport :: u16
  inet_dport :: u16

record tcp_state =
  flow_map :: "flow_key \<rightharpoonup> flow_data"
  tcp_events :: "tcp_event list"

definition make_flow_key :: "u32 \<Rightarrow> u32 \<Rightarrow> u16 \<Rightarrow> u16 \<Rightarrow> flow_key" where
  "make_flow_key sa da sp dp =
     \<lparr>saddr = sa, daddr = da, sport = sp, dport = dp, protocol = IPPROTO_TCP\<rparr>"

text \<open>\<^verbatim>\<open>struct flow_data new_flow = {};\<close>\<close>

definition new_flow :: flow_data where
  "new_flow = \<lparr>bytes_tx = 0, bytes_rx = 0, packets_tx = 0, packets_rx = 0, first_seen = 0,
     last_seen = 0, rtt_samples = 0, rtt_total = 0, state = 0\<rparr>"

definition send_event :: "hook_env \<Rightarrow> u8 \<Rightarrow> sock \<Rightarrow> u32 \<Rightarrow> u32 \<Rightarrow> tcp_state \<Rightarrow> tcp_state" where
  "send_event e event_type sk bytes rtt s =
     (if \<not> bpf_ringbuf_reserve (tcp_events s) sizeof_tcp_event then s
      else s\<lparr>tcp_events := bpf_ringbuf_submit (tcp_events s)
             \<lparr>te_timestamp = ktime_get_ns_emit e,
              te_pid = current_pid e,
              te_saddr = inet_saddr sk,
              te_daddr = inet_daddr sk,
              te_sport = bpf_ntohs (inet_sport sk),
              te_dport = bpf_ntohs (inet_dport sk),
              te_bytes = bytes,
              te_rtt = rtt,
              te_event_type = event_type,
              te_comm = current_comm e\<rparr>\<rparr>)"

text \<open>
  \<^verbatim>\<open>oldstate\<close> and \<^verbatim>\<open>newstate\<close> are \<^verbatim>\<open>int\<close>; they are only compared for equality. The
  addresses and ports of the tracepoint context are read into locals and not used.
\<close>

definition trace_tcp_state_change ::
  "hook_env \<Rightarrow> sock \<Rightarrow> u16 \<Rightarrow> u32 \<Rightarrow> u32 \<Rightarrow> tcp_state \<Rightarrow> tcp_state" where
  "trace_tcp_state_change e sk family oldstate newstate s =
     (if family \<noteq> AF_INET then s
      else (let s1 = (if oldstate = TCP_SYN_SENT \<and> newstate = TCP_ESTABLISHED
                      then send_event e 1 sk 0 0 s else s);
                s2 = (if oldstate = TCP_SYN_RECV \<and> newstate = TCP_ESTABLISHED
                      then send_event e 2 sk 0 0 s1 else s1)
            in if newstate = TCP_CLOSE then send_event e 5 sk 0 0 s2 else s2))"

definition trace_tcp_probe :: "hook_env \<Rightarrow> sock \<Rightarrow> u32 \<Rightarrow> u32 \<Rightarrow> u32 \<Rightarrow> tcp_state \<Rightarrow> tcp_state" where
  "trace_tcp_probe e sk snd_nxt snd_una srtt s =
     (let bytes_in_flight = snd_nxt - snd_una
      in send_event e 3 sk bytes_in_flight srtt s)"

definition trace_tcp_retransmit :: "hook_env \<Rightarrow> sock \<Rightarrow> tcp_state \<Rightarrow> tcp_state" where
  "trace_tcp_retransmit e sk s = send_event e 6 sk 0 0 s"

text \<open>The key both data-path hooks build from the socket.\<close>

definition sock_flow_key :: "sock \<Rightarrow> flow_key" where
  "sock_flow_key sk =
     make_flow_key (inet_saddr sk) (inet_daddr sk)
       (bpf_ntohs (inet_sport sk)) (bpf_ntohs (inet_dport sk))"

text \<open>\<^verbatim>\<open>size\<close> is a \<^verbatim>\<open>size_t\<close>; the event carries its low 32 bits.\<close>

definition tcp_sendmsg :: "hook_env \<Rightarrow> sock \<Rightarrow> u64 \<Rightarrow> tcp_state \<Rightarrow> tcp_state" where
  "tcp_sendmsg e sk sz s =
     (let ts = ktime_get_ns e;
          key = sock_flow_key sk;
          m = (case bpf_map_lookup_elem (flow_map s) key of
                 None \<Rightarrow>
                   bpf_map_update_elem MAX_ENTRIES (flow_map s) key
                     (new_flow\<lparr>first_seen := ts, last_seen := ts, bytes_tx := sz,
                                packets_tx := 1\<rparr>)
               | Some flow \<Rightarrow>
                   (flow_map s)(key \<mapsto> flow\<lparr>bytes_tx := bytes_tx flow + sz,
                                              packets_tx := packets_tx flow + 1,
                                              last_seen := ts\<rparr>))
      in send_event e 3 sk (ucast sz) 0 (s\<lparr>flow_map := m\<rparr>))"

text \<open>\<^verbatim>\<open>copied\<close> is an \<^verbatim>\<open>int\<close>: tested signed, widened with its sign to the 64-bit counter.\<close>

definition tcp_cleanup_rbuf :: "hook_env \<Rightarrow> sock \<Rightarrow> u32 \<Rightarrow> tcp_state \<Rightarrow> tcp_state" where
  "tcp_cleanup_rbuf e sk copied s =
     (if sint copied \<le> 0 then s
      else (let ts = ktime_get_ns e;
                key = sock_flow_key sk;
                m = (case bpf_map_lookup_elem (flow_map s) key of
                       None \<Rightarrow>
                         bpf_map_update_elem MAX_ENTRIES (flow_map s) key
                           (new_flow\<lparr>first_seen := ts, last_seen := ts, bytes_rx := scast copied,
                                      packets_rx := 1\<rparr>)
                     | Some flow \<Rightarrow>
                         (flow_map s)(key \<mapsto> flow\<lparr>bytes_rx := bytes_rx flow + scast copied,
                                                    packets_rx := packets_rx flow + 1,
                                                    last_seen := ts\<rparr>))
            in send_event e 4 sk copied 0 (s\<lparr>flow_map := m\<rparr>)))"

datatype tcp_hook =
  TcpStateChange hook_env sock u16 u32 u32
  | TcpProbe hook_env sock u32 u32 u32
  | TcpRetransmit hook_env sock
  | TcpSendmsg hook_env sock u64
  | TcpCleanupRbuf hook_env sock u32
  | TcpConsume

fun tcp_step :: "tcp_hook \<Rightarrow> tcp_state \<Rightarrow> tcp_state" where
  "tcp_step (TcpStateChange e sk family oldstate newstate) s =
     trace_tcp_state_change e sk family oldstate newstate s"
| "tcp_step (TcpProbe e sk snd_nxt snd_una srtt) s = trace_tcp_probe e sk snd_nxt snd_una srtt s"
| "tcp_step (TcpRetransmit e sk) s = trace_tcp_retransmit e sk s"
| "tcp_step (TcpSendmsg e sk sz) s = tcp_sendmsg e sk sz s"
| "tcp_step (TcpCleanupRbuf e sk copied) s = tcp_cleanup_rbuf e sk copied s"
| "tcp_step TcpConsume s = s\<lparr>tcp_events := ringbuf_consume (tcp_events s)\<rparr>"

fun tcp_run :: "tcp_hook list \<Rightarrow> tcp_state \<Rightarrow> tcp_state" where
  "tcp_run [] s = s"
| "tcp_run (h # hs) s = tcp_run hs (tcp_step h s)"

definition tcp_init :: tcp_state where
  "tcp_init = \<lparr>flow_map = Map.empty, tcp_events = []\<rparr>"

section \<open>The CPU profiler (\<^verbatim>\<open>cpu_profiler.c\<close>)\<close>

definition MAX_CPUS :: nat where
  "MAX_CPUS = 256"

text \<open>\<^verbatim>\<open>TASK_RUNNING\<close> is 0 in the kernel headers; \<^verbatim>\<open>prev_state\<close> is a \<^verbatim>\<open>long\<close>.\<close>

definition TASK_RUNNING :: u64 where
  "TASK_RUNNING = 0"

text \<open>\<^verbatim>\<open>struct cpu_sample\<close>, fields prefixed \<open>cs_\<close>; 56 bytes.\<close>

record cpu_sample =
  cs_timestamp :: u64
  cs_pid :: u32
  cs_cpu :: u32
  cs_runtime :: u64
  cs_vruntime :: u64
  cs_prio :: u32
  cs_weight :: u32
  cs_comm :: string

definition sizeof_cpu_sample :: nat where
  "sizeof_cpu_sample = 56"

text \<open>\<^verbatim>\<open>struct process_stats\<close>; its \<^verbatim>\<open>last_seen\<close> is \<open>ps_last_seen\<close> here.\<close>

record process_stats =
  total_runtime :: u64
  schedule_count :: u64
  voluntary_switches :: u64
  involuntary_switches :: u64
  ps_last_seen :: u64
  min_cpu :: u32
  max_cpu :: u32

record cpu_stats =
  idle_time :: u64
  user_time :: u64
  system_time :: u64
  irq_time :: u64
  softirq_time :: u64
  context_switches :: u64
  frequency :: u32
  load_avg :: u32

text \<open>
  What the reads of a task's \<^verbatim>\<open>pid\<close>, \<^verbatim>\<open>prio\<close>, \<^verbatim>\<open>comm\<close>, \<^verbatim>\<open>se.vruntime\<close> and
  \<^verbatim>\<open>se.load.weight\<close> return, each at the width of the field it is read into.
\<close>

record task_struct =
  task_pid :: u32
  task_prio :: u32
  task_comm :: string
  se_vruntime :: u64
  se_load_weight :: u32

text \<open>
  \<^verbatim>\<open>cpu_map\<close> is a per-CPU array: every CPU owns \<^verbatim>\<open>MAX_CPUS\<close> slots, and a lookup on a CPU
  reaches that CPU's slot for the key, or fails when the key is not below \<^verbatim>\<open>MAX_CPUS\<close>.
  The ring \<^verbatim>\<open>events\<close> is \<open>cpu_events\<close>.
\<close>

record cpu_state =
  process_map :: "u32 \<rightharpoonup> process_stats"
  cpu_map :: "u32 \<Rightarrow> u32 \<Rightarrow> cpu_stats"
  cpu_events :: "cpu_sample list"

definition percpu_lookup_elem :: "(u32 \<Rightarrow> u32 \<Rightarrow> 'v) \<Rightarrow> u32 \<Rightarrow> u32 \<Rightarrow> 'v option" where
  "percpu_lookup_elem m this_cpu key =
     (if unat key < MAX_CPUS then Some (m this_cpu key) else None)"

definition percpu_store :: "(u32 \<Rightarrow> u32 \<Rightarrow> 'v) \<Rightarrow> u32 \<Rightarrow> u32 \<Rightarrow> 'v \<Rightarrow> (u32 \<Rightarrow> u32 \<Rightarrow> 'v)" where
  "percpu_store m this_cpu key v = m(this_cpu := (m this_cpu)(key := v))"

text \<open>\<^verbatim>\<open>struct process_stats new_stats = {};\<close>\<close>

definition new_stats :: process_stats where
  "new_stats = \<lparr>total_runtime = 0, schedule_count = 0, voluntary_switches = 0,
     involuntary_switches = 0, ps_last_seen = 0, min_cpu = 0, max_cpu = 0\<rparr>"

definition send_cpu_sample :: "hook_env \<Rightarrow> task_struct \<Rightarrow> u32 \<Rightarrow> u64 \<Rightarrow> cpu_state \<Rightarrow> cpu_state" where
  "send_cpu_sample e task cpu runtime s =
     (if \<not> bpf_ringbuf_reserve (cpu_events s) sizeof_cpu_sample then s
      else s\<lparr>cpu_events := bpf_ringbuf_submit (cpu_events s)
             \<lparr>cs_timestamp = ktime_get_ns_emit e,
              cs_pid = task_pid task,
              cs_cpu = cpu,
              cs_runtime = runtime,
              cs_vruntime = se_vruntime task,
              cs_prio = task_prio task,
              cs_weight = se_load_weight task,
              cs_comm = task_comm task\<rparr>\<rparr>)"

text \<open>
  The two lines every hit path repeats:
  \<^verbatim>\<open>if (cpu < stats->min_cpu) stats->min_cpu = cpu; if (cpu > stats->max_cpu) stats->max_cpu = cpu;\<close>
\<close>

definition observe_cpu :: "u32 \<Rightarrow> process_stats \<Rightarrow> process_stats" where
  "observe_cpu cpu stats =
     (let stats1 = (if cpu < min_cpu stats then stats\<lparr>min_cpu := cpu\<rparr> else stats)
      in if cpu > max_cpu stats1 then stats1\<lparr>max_cpu := cpu\<rparr> else stats1)"

text \<open>
  \<^verbatim>\<open>trace_sched_switch\<close> in its three blocks: the outgoing task (lines 120 to 141), the
  incoming task (lines 143 to 159), the per-CPU record (lines 161 to 165).
\<close>

definition sched_switch_prev :: "hook_env \<Rightarrow> u32 \<Rightarrow> u64 \<Rightarrow> cpu_state \<Rightarrow> cpu_state" where
  "sched_switch_prev e prev_pid prev_state s =
     (let cpu = smp_processor_id e; ts = ktime_get_ns e
      in if prev_pid > 0 then
           (case bpf_map_lookup_elem (process_map s) prev_pid of
              None \<Rightarrow>
                s\<lparr>process_map := bpf_map_update_elem MAX_ENTRIES (process_map s) prev_pid
                     (new_stats\<lparr>ps_last_seen := ts, min_cpu := cpu, max_cpu := cpu\<rparr>)\<rparr>
            | Some stats \<Rightarrow>
                (let stats1 = observe_cpu cpu (stats\<lparr>ps_last_seen := ts\<rparr>);
                     stats2 = (if prev_state = TASK_RUNNING
                               then stats1\<lparr>involuntary_switches := involuntary_switches stats1 + 1\<rparr>
                               else stats1\<lparr>voluntary_switches := voluntary_switches stats1 + 1\<rparr>)
                 in s\<lparr>process_map := (process_map s)(prev_pid \<mapsto> stats2)\<rparr>))
         else s)"

definition sched_switch_next :: "hook_env \<Rightarrow> u32 \<Rightarrow> cpu_state \<Rightarrow> cpu_state" where
  "sched_switch_next e next_pid s =
     (let cpu = smp_processor_id e; ts = ktime_get_ns e
      in if next_pid > 0 then
           (case bpf_map_lookup_elem (process_map s) next_pid of
              None \<Rightarrow>
                s\<lparr>process_map := bpf_map_update_elem MAX_ENTRIES (process_map s) next_pid
                     (new_stats\<lparr>schedule_count := 1, ps_last_seen := ts, min_cpu := cpu,
                                 max_cpu := cpu\<rparr>)\<rparr>
            | Some stats \<Rightarrow>
                s\<lparr>process_map := (process_map s)(next_pid \<mapsto>
                     observe_cpu cpu (stats\<lparr>schedule_count := schedule_count stats + 1,
                                             ps_last_seen := ts\<rparr>))\<rparr>)
         else s)"

definition sched_switch_cpu :: "hook_env \<Rightarrow> cpu_state \<Rightarrow> cpu_state" where
  "sched_switch_cpu e s =
     (let cpu = smp_processor_id e
      in case percpu_lookup_elem (cpu_map s) cpu cpu of
           None \<Rightarrow> s
         | Some cs \<Rightarrow>
             s\<lparr>cpu_map := percpu_store (cpu_map s) cpu cpu
                  (cs\<lparr>context_switches := context_switches cs + 1\<rparr>)\<rparr>)"

definition trace_sched_switch :: "hook_env \<Rightarrow> u32 \<Rightarrow> u64 \<Rightarrow> u32 \<Rightarrow> cpu_state \<Rightarrow> cpu_state" where
  "trace_sched_switch e prev_pid prev_state next_pid s =
     sched_switch_cpu e (sched_switch_next e next_pid (sched_switch_prev e prev_pid prev_state s))"

text \<open>The sample is built from the current task; \<^verbatim>\<open>ctx->pid\<close> is read and not used.\<close>

definition trace_sched_wakeup :: "hook_env \<Rightarrow> task_struct \<Rightarrow> u32 \<Rightarrow> cpu_state \<Rightarrow> cpu_state" where
  "trace_sched_wakeup e task target_cpu s = send_cpu_sample e task target_cpu 0 s"

definition sample_cpu_perf :: "hook_env \<Rightarrow> task_struct \<Rightarrow> cpu_state \<Rightarrow> cpu_state" where
  "sample_cpu_perf e task s =
     (let pid = current_pid e; cpu = smp_processor_id e; ts = ktime_get_ns e
      in if pid = 0 then s
         else (case bpf_map_lookup_elem (process_map s) pid of
                 None \<Rightarrow>
                   send_cpu_sample e task cpu 1
                     (s\<lparr>process_map := bpf_map_update_elem MAX_ENTRIES (process_map s) pid
                          (new_stats\<lparr>total_runtime := 1, ps_last_seen := ts, min_cpu := cpu,
                                      max_cpu := cpu\<rparr>)\<rparr>)
               | Some stats \<Rightarrow>
                   (let stats1 = observe_cpu cpu (stats\<lparr>total_runtime := total_runtime stats + 1,
                                                          ps_last_seen := ts\<rparr>)
                    in send_cpu_sample e task cpu (total_runtime stats1)
                         (s\<lparr>process_map := (process_map s)(pid \<mapsto> stats1)\<rparr>))))"

definition trace_cpu_frequency :: "hook_env \<Rightarrow> u32 \<Rightarrow> u32 \<Rightarrow> cpu_state \<Rightarrow> cpu_state" where
  "trace_cpu_frequency e cpu_id freq s =
     (case percpu_lookup_elem (cpu_map s) (smp_processor_id e) cpu_id of
        None \<Rightarrow> s
      | Some cs \<Rightarrow>
          s\<lparr>cpu_map := percpu_store (cpu_map s) (smp_processor_id e) cpu_id
               (cs\<lparr>frequency := freq\<rparr>)\<rparr>)"

definition trace_cpu_idle :: "hook_env \<Rightarrow> u32 \<Rightarrow> cpu_state \<Rightarrow> cpu_state" where
  "trace_cpu_idle e idle_state s =
     (let cpu = smp_processor_id e
      in case percpu_lookup_elem (cpu_map s) cpu cpu of
           None \<Rightarrow> s
         | Some cs \<Rightarrow>
             (if idle_state \<noteq> - 1
              then s\<lparr>cpu_map := percpu_store (cpu_map s) cpu cpu
                        (cs\<lparr>idle_time := idle_time cs + 1\<rparr>)\<rparr>
              else s))"

definition trace_irq_entry :: "hook_env \<Rightarrow> cpu_state \<Rightarrow> cpu_state" where
  "trace_irq_entry e s =
     (let cpu = smp_processor_id e
      in case percpu_lookup_elem (cpu_map s) cpu cpu of
           None \<Rightarrow> s
         | Some cs \<Rightarrow>
             s\<lparr>cpu_map := percpu_store (cpu_map s) cpu cpu (cs\<lparr>irq_time := irq_time cs + 1\<rparr>)\<rparr>)"

definition trace_softirq_entry :: "hook_env \<Rightarrow> cpu_state \<Rightarrow> cpu_state" where
  "trace_softirq_entry e s =
     (let cpu = smp_processor_id e
      in case percpu_lookup_elem (cpu_map s) cpu cpu of
           None \<Rightarrow> s
         | Some cs \<Rightarrow>
             s\<lparr>cpu_map := percpu_store (cpu_map s) cpu cpu
                  (cs\<lparr>softirq_time := softirq_time cs + 1\<rparr>)\<rparr>)"

text \<open>The pid of the current task is read as well and not used.\<close>

definition finish_task_switch :: "hook_env \<Rightarrow> task_struct \<Rightarrow> cpu_state \<Rightarrow> cpu_state" where
  "finish_task_switch e prev s =
     (let prev_pid = task_pid prev; cpu = smp_processor_id e; ts = ktime_get_ns e
      in if prev_pid > 0 then
           (case bpf_map_lookup_elem (process_map s) prev_pid of
              None \<Rightarrow> s
            | Some stats \<Rightarrow>
                (let runtime = ts - ps_last_seen stats
                 in send_cpu_sample e prev cpu runtime
                      (s\<lparr>process_map := (process_map s)(prev_pid \<mapsto>
                            stats\<lparr>total_runtime := total_runtime stats + runtime\<rparr>)\<rparr>)))
         else s)"

datatype cpu_hook =
  SchedSwitch hook_env u32 u64 u32
  | SchedWakeup hook_env task_struct u32
  | SampleCpuPerf hook_env task_struct
  | CpuFrequency hook_env u32 u32
  | CpuIdle hook_env u32
  | IrqEntry hook_env
  | SoftirqEntry hook_env
  | FinishTaskSwitch hook_env task_struct
  | CpuConsume

fun cpu_step :: "cpu_hook \<Rightarrow> cpu_state \<Rightarrow> cpu_state" where
  "cpu_step (SchedSwitch e prev_pid prev_state next_pid) s =
     trace_sched_switch e prev_pid prev_state next_pid s"
| "cpu_step (SchedWakeup e task target_cpu) s = trace_sched_wakeup e task target_cpu s"
| "cpu_step (SampleCpuPerf e task) s = sample_cpu_perf e task s"
| "cpu_step (CpuFrequency e cpu_id freq) s = trace_cpu_frequency e cpu_id freq s"
| "cpu_step (CpuIdle e idle_state) s = trace_cpu_idle e idle_state s"
| "cpu_step (IrqEntry e) s = trace_irq_entry e s"
| "cpu_step (SoftirqEntry e) s = trace_softirq_entry e s"
| "cpu_step (FinishTaskSwitch e prev) s = finish_task_switch e prev s"
| "cpu_step CpuConsume s = s\<lparr>cpu_events := ringbuf_consume (cpu_events s)\<rparr>"

fun cpu_run :: "cpu_hook list \<Rightarrow> cpu_state \<Rightarrow> cpu_state" where
  "cpu_run [] s = s"
| "cpu_run (h # hs) s = cpu_run hs (cpu_step h s)"

text \<open>The probe as loaded: an empty hash map, zeroed per-CPU slots, an empty ring.\<close>

definition cpu_init :: cpu_state where
  "cpu_init = \<lparr>process_map = Map.empty,
     cpu_map = (\<lambda>this_cpu key. \<lparr>idle_time = 0, user_time = 0, system_time = 0, irq_time = 0,
       softirq_time = 0, context_switches = 0, frequency = 0, load_avg = 0\<rparr>),
     cpu_events = []\<rparr>"

section \<open>Proof vocabulary and example inputs\<close>

text \<open>
  How the record of one process may change from one state to a later one: a record, once
  present, stays; its peak does not fall; and a record whose gauge is below its peak keeps
  that property, as does a record that appears.
\<close>

definition rec_rel :: "process_memory option \<Rightarrow> process_memory option \<Rightarrow> bool" where
  "rec_rel x y =
     (case x of
        None \<Rightarrow> (case y of None \<Rightarrow> True | Some b \<Rightarrow> current_usage b \<le> peak_usage b)
      | Some a \<Rightarrow> (case y of None \<Rightarrow> False
                    | Some b \<Rightarrow> peak_usage a \<le> peak_usage b \<and>
                        (current_usage a \<le> peak_usage a \<longrightarrow> current_usage b \<le> peak_usage b)))"

text \<open>An invocation in process 7 (thread 7), and one in the idle context (process 0).\<close>

definition ex_env :: hook_env where
  "ex_env = \<lparr>ktime_get_ns = 1000, ktime_get_ns_emit = 1001, current_pid_tgid = 0x700000007,
     get_stackid = 1, current_comm = ''app'', smp_processor_id = 0\<rparr>"

definition ex_env0 :: hook_env where
  "ex_env0 = \<lparr>ktime_get_ns = 1000, ktime_get_ns_emit = 1001, current_pid_tgid = 0,
     get_stackid = 1, current_comm = ''swapper'', smp_processor_id = 0\<rparr>"

text \<open>The memory probe after process 7 allocated one page, and the record it then holds.\<close>

definition ex_mem1 :: mem_state where
  "ex_mem1 = mem_run [AllocPages ex_env 0] mem_init"

definition ex_rec1 :: process_memory where
  "ex_rec1 = \<lparr>total_allocated = 4096, total_freed = 0, current_usage = 4096, peak_usage = 4096,
     allocation_count = 1, free_count = 0, page_faults = 0, major_faults = 0,
     rss_pages = 0, vmem_pages = 0\<rparr>"

text \<open>The memory probe after process 7 completed an mmap that returned \<open>0x7000\<close>.\<close>

definition ex_mem2 :: mem_state where
  "ex_mem2 = mem_run [MmapExit ex_env 0x7000] mem_init"

text \<open>A ring of the memory probe with no room left: 3276 records of 80 bytes.\<close>

definition ex_memory_event :: memory_event where
  "ex_memory_event = \<lparr>me_timestamp = 1001, me_pid = 7, me_tid = 7, me_addr = 0, me_size = 4096,
     me_old_addr = 0, me_type = 8, me_flags = 0, me_stack_id = 1, me_comm = ''app''\<rparr>"

definition ex_mem_full_ring :: mem_state where
  "ex_mem_full_ring = mem_init\<lparr>mem_events := replicate 3276 ex_memory_event\<rparr>"

text \<open>No flow record of a state has a round-trip-time sum or count other than zero.\<close>

definition rtt_zero :: "tcp_state \<Rightarrow> bool" where
  "rtt_zero s = (\<forall>k f. flow_map s k = Some f \<longrightarrow> rtt_total f = 0 \<and> rtt_samples f = 0)"

text \<open>
  A socket from 10.0.0.1 port 80 to 10.0.0.2 port 443 (ports in network byte order), the
  flow monitor after 100 bytes were sent on it, and the record it then holds.
\<close>

definition ex_sock :: sock where
  "ex_sock = \<lparr>inet_saddr = 0x0A000001, inet_daddr = 0x0A000002, inet_sport = 0x5000,
     inet_dport = 0xBB01\<rparr>"

definition ex_tcp1 :: tcp_state where
  "ex_tcp1 = tcp_run [TcpSendmsg ex_env ex_sock 100] tcp_init"

definition ex_flow1 :: flow_data where
  "ex_flow1 = \<lparr>bytes_tx = 100, bytes_rx = 0, packets_tx = 1, packets_rx = 0, first_seen = 1000,
     last_seen = 1000, rtt_samples = 0, rtt_total = 0, state = 0\<rparr>"

text \<open>
  A statistics table of the memory probe at capacity: the 10240 processes 1 to 10240 each
  have a record.
\<close>

definition ex_full_table :: "u32 \<rightharpoonup> process_memory" where
  "ex_full_table = (\<lambda>pid. if 0 < pid \<and> pid \<le> 10240 then Some new_mem else None)"

definition ex_mem_full_table :: mem_state where
  "ex_mem_full_table = mem_init\<lparr>process_memory_map := ex_full_table\<rparr>"

text \<open>
  The CPU profiler after one switch from task 7 (not runnable any more) to task 9, and the
  records the two tasks then have.
\<close>

definition ex_cpu1 :: cpu_state where
  "ex_cpu1 = cpu_run [SchedSwitch ex_env 7 1 9] cpu_init"

definition ex_stats7 :: process_stats where
  "ex_stats7 = \<lparr>total_runtime = 0, schedule_count = 0, voluntary_switches = 0,
     involuntary_switches = 0, ps_last_seen = 1000, min_cpu = 0, max_cpu = 0\<rparr>"

definition ex_stats9 :: process_stats where
  "ex_stats9 = \<lparr>total_runtime = 0, schedule_count = 1, voluntary_switches = 0,
     involuntary_switches = 0, ps_last_seen = 1000, min_cpu = 0, max_cpu = 0\<rparr>"

text \<open>What the reads of the current task return while process 7 runs.\<close>

definition ex_task :: task_struct where
  "ex_task = \<lparr>task_pid = 7, task_prio = 120, task_comm = ''app'', se_vruntime = 5000,
     se_load_weight = 1024\<rparr>"

section \<open>Basic facts\<close>

lemmas mem_hook_defs = trace_malloc_def trace_malloc_ret_def trace_free_def trace_mmap_enter_def
  trace_mmap_exit_def trace_munmap_def trace_brk_def trace_page_fault_def
  trace_memory_pressure_def trace_oom_victim_def sample_memory_stats_def alloc_pages_def
  free_pages_def update_process_memory_def process_memory_get_or_create_def
  send_memory_event_def

lemmas bpf_defs = bpf_map_lookup_elem_def bpf_map_update_elem_def bpf_map_delete_elem_def
  bpf_ringbuf_reserve_def bpf_ringbuf_submit_def ringbuf_record_len_def RINGBUF_MAX_ENTRIES_def
  ringbuf_consume_def

lemma ex_pid: "current_pid ex_env = 7"
  by (simp add: current_pid_def ex_env_def)

lemma ex_pid0: "current_pid ex_env0 = 0"
  by (simp add: current_pid_def ex_env0_def)

lemma ex_mem1_lookup: "process_memory_map ex_mem1 7 = Some ex_rec1"
  by (simp add: ex_mem1_def ex_rec1_def mem_hook_defs bpf_defs ex_pid Let_def mem_init_def
      pages_to_bytes_def account_def new_mem_def MAX_ENTRIES_def)

lemma ex_mem1_alloc: "allocation_map ex_mem1 = Map.empty"
  by (simp add: ex_mem1_def mem_hook_defs bpf_defs ex_pid Let_def mem_init_def
      pages_to_bytes_def account_def new_mem_def MAX_ENTRIES_def)

lemma ex_env_fields [simp]:
  "ktime_get_ns ex_env = 1000" "ktime_get_ns_emit ex_env = 1001"
  "current_pid_tgid ex_env = 0x700000007" "get_stackid ex_env = 1"
  "current_comm ex_env = ''app''" "smp_processor_id ex_env = 0"
  by (simp_all add: ex_env_def)

lemma ex_mem1_eq:
  "ex_mem1 = mem_init\<lparr>process_memory_map := [7 \<mapsto> ex_rec1],
     mem_events := [ex_memory_event]\<rparr>"
  by (simp add: ex_mem1_def ex_rec1_def mem_hook_defs bpf_defs ex_pid Let_def mem_init_def
      pages_to_bytes_def account_def new_mem_def MAX_ENTRIES_def sizeof_memory_event_def
      ex_memory_event_def)

lemma ex_mem2_entry:
  "allocation_map ex_mem2 0x7000
     = Some \<lparr>ai_size = 0, ai_timestamp = 1000, ai_stack_id = 0, ai_pid = 7\<rparr>"
  by (simp add: ex_mem2_def mem_hook_defs bpf_defs ex_pid Let_def mem_init_def MAX_ENTRIES_def)

lemma ex_full_ring: "\<not> bpf_ringbuf_reserve (mem_events ex_mem_full_ring) sizeof_memory_event"
  by (simp add: ex_mem_full_ring_def bpf_defs sizeof_memory_event_def)

lemmas tcp_hook_defs = trace_tcp_state_change_def trace_tcp_probe_def trace_tcp_retransmit_def
  tcp_sendmsg_def tcp_cleanup_rbuf_def send_event_def

lemmas cpu_hook_defs = trace_sched_switch_def sched_switch_prev_def sched_switch_next_def
  sched_switch_cpu_def trace_sched_wakeup_def sample_cpu_perf_def trace_cpu_frequency_def
  trace_cpu_idle_def trace_irq_entry_def trace_softirq_entry_def finish_task_switch_def
  send_cpu_sample_def

lemma ex_key: "sock_flow_key ex_sock =
  \<lparr>saddr = 0x0A000001, daddr = 0x0A000002, sport = 80, dport = 443, protocol = 6\<rparr>"
  by (simp add: sock_flow_key_def make_flow_key_def ex_sock_def bpf_ntohs_def IPPROTO_TCP_def)

lemma ex_tcp1_eq:
  "ex_tcp1 = \<lparr>flow_map = [sock_flow_key ex_sock \<mapsto> ex_flow1],
     tcp_events = [\<lparr>te_timestamp = 1001, te_pid = 7, te_saddr = 0x0A000001,
       te_daddr = 0x0A000002, te_sport = 80, te_dport = 443, te_bytes = 100, te_rtt = 0,
       te_event_type = 3, te_comm = ''app''\<rparr>]\<rparr>"
  by (simp add: ex_tcp1_def tcp_hook_defs bpf_defs tcp_init_def Let_def new_flow_def
      MAX_ENTRIES_def sizeof_tcp_event_def ex_pid ex_flow1_def)
    (simp add: ex_sock_def bpf_ntohs_def)

lemma upm_allocation_map [simp]:
  "allocation_map (update_process_memory pid sz a s) = allocation_map s"
  by (simp add: update_process_memory_def Let_def split: option.splits)

lemma send_event_flow_map [simp]: "flow_map (send_event e et sk b r s) = flow_map s"
  by (simp add: send_event_def)

lemma send_memory_event_maps [simp]:
  "process_memory_map (send_memory_event e pid addr sz ty old s) = process_memory_map s"
  "allocation_map (send_memory_event e pid addr sz ty old s) = allocation_map s"
  "system_memory_map (send_memory_event e pid addr sz ty old s) = system_memory_map s"
  by (simp_all add: send_memory_event_def)

lemma get_or_create_lookup:
  "process_memory_get_or_create m pid p =
     (if p = pid \<and> m pid = None \<and> card (dom m) < MAX_ENTRIES then Some new_mem else m p)"
  by (auto simp add: process_memory_get_or_create_def bpf_map_lookup_elem_def
      bpf_map_update_elem_def split: option.splits)

lemma mem_run_append: "mem_run (hs @ hs') s = mem_run hs' (mem_run hs s)"
  by (induction hs arbitrary: s) simp_all

subsection \<open>The gauge and its peak in one record\<close>

lemma account_free_le: "current_usage (account mem sz 0) \<le> current_usage mem"
  by (simp add: account_def Let_def word_sub_le)

lemma account_free_skip:
  "current_usage mem < sz \<Longrightarrow> current_usage (account mem sz 0) = current_usage mem"
proof -
  assume "current_usage mem < sz"
  then have "\<not> sz \<le> current_usage mem" by (simp add: not_le)
  then show ?thesis by (simp add: account_def Let_def)
qed

lemma account_peak: "peak_usage mem \<le> peak_usage (account mem sz a)"
  by (auto simp add: account_def Let_def)

lemma account_inv:
  "current_usage mem \<le> peak_usage mem \<Longrightarrow>
   current_usage (account mem sz a) \<le> peak_usage (account mem sz a)"
proof (cases "a = 0")
  case True
  assume "current_usage mem \<le> peak_usage mem"
  moreover have "current_usage (account mem sz 0) \<le> current_usage mem"
    by (rule account_free_le)
  moreover have "peak_usage (account mem sz 0) = peak_usage mem"
    by (simp add: account_def Let_def)
  ultimately show ?thesis using True by simp
next
  case False
  then show ?thesis by (simp add: account_def Let_def not_less)
qed

subsection \<open>Every step of the memory probe respects \<open>rec_rel\<close>\<close>

lemma rec_rel_refl [simp]: "rec_rel x x"
  by (simp add: rec_rel_def split: option.splits)

lemma rec_rel_trans: "rec_rel x y \<Longrightarrow> rec_rel y z \<Longrightarrow> rec_rel x z"
  by (auto simp add: rec_rel_def split: option.splits)

lemma rec_rel_upm:
  "rec_rel (process_memory_map s p) (process_memory_map (update_process_memory pid sz a s) p)"
  by (auto simp add: update_process_memory_def Let_def bpf_map_lookup_elem_def get_or_create_lookup
      rec_rel_def account_peak account_inv new_mem_def split: option.splits if_splits)

lemma rec_rel_page_fault:
  "rec_rel (process_memory_map s p) (process_memory_map (trace_page_fault e a ec s) p)"
  by (auto simp add: trace_page_fault_def Let_def bpf_map_lookup_elem_def get_or_create_lookup
      rec_rel_def new_mem_def split: option.splits if_splits)

lemma rec_rel_sample:
  "rec_rel (process_memory_map s p) (process_memory_map (sample_memory_stats e mm s) p)"
  by (auto simp add: sample_memory_stats_def Let_def bpf_map_lookup_elem_def get_or_create_lookup
      rec_rel_def new_mem_def split: option.splits if_splits)

lemma rec_rel_free:
  "rec_rel (process_memory_map s p) (process_memory_map (trace_free e addr s) p)"
proof -
  have "rec_rel (process_memory_map s p)
          (process_memory_map (update_process_memory pid sz 0 (s\<lparr>allocation_map := am\<rparr>)) p)"
    for pid sz am
    using rec_rel_upm [of "s\<lparr>allocation_map := am\<rparr>" p pid sz 0] by simp
  then show ?thesis
    by (simp add: trace_free_def Let_def split: option.splits)
qed

lemma rec_rel_munmap:
  "rec_rel (process_memory_map s p) (process_memory_map (trace_munmap e addr sz s) p)"
proof -
  have "rec_rel (process_memory_map s p)
          (process_memory_map (update_process_memory pid n 0 (s\<lparr>allocation_map := am\<rparr>)) p)"
    for pid n am
    using rec_rel_upm [of "s\<lparr>allocation_map := am\<rparr>" p pid n 0] by simp
  then show ?thesis
    by (simp add: trace_munmap_def Let_def split: option.splits)
qed

lemma rec_rel_step:
  "rec_rel (process_memory_map s p) (process_memory_map (mem_step h s) p)"
proof (cases h)
  case (Free e addr)
  then show ?thesis by (simp add: rec_rel_free)
next
  case (Munmap e addr sz)
  then show ?thesis by (simp add: rec_rel_munmap)
next
  case (PageFault e a ec)
  then show ?thesis by (simp add: rec_rel_page_fault)
next
  case (SampleMemoryStats e mm)
  then show ?thesis by (simp add: rec_rel_sample)
next
  case (AllocPages e order)
  then show ?thesis by (simp add: alloc_pages_def Let_def rec_rel_upm)
next
  case (FreePages e order)
  then show ?thesis by (simp add: free_pages_def Let_def rec_rel_upm)
qed (simp_all add: trace_malloc_def trace_malloc_ret_def trace_mmap_enter_def trace_mmap_exit_def
      trace_brk_def trace_memory_pressure_def trace_oom_victim_def Let_def)

lemma rec_rel_run:
  "rec_rel (process_memory_map s p) (process_memory_map (mem_run hs s) p)"
proof (induction hs arbitrary: s)
  case Nil
  show ?case by simp
next
  case (Cons h hs)
  have "rec_rel (process_memory_map s p) (process_memory_map (mem_step h s) p)"
    by (rule rec_rel_step)
  moreover have "rec_rel (process_memory_map (mem_step h s) p)
                   (process_memory_map (mem_run hs (mem_step h s)) p)"
    by (rule Cons.IH)
  ultimately show ?case by (simp add: rec_rel_trans)
qed

section \<open>Claims about the memory tracker\<close>

text \<open>
  C1. Scenario A asks that a process that allocates 128 bytes through the malloc hooks and
  frees the returned address ends with \<open>allocation_count = 1\<close>, \<open>free_count = 1\<close>,
  \<open>current_usage = 0\<close>, \<open>total_allocated = 128\<close> and \<open>total_freed = 128\<close>. The code is evaluated
  on that scenario from the freshly loaded probe: the return hook stores nothing, the free hook
  finds no entry for the address, and process 7 has no statistics record at all afterwards;
  the two emitted events carry the sizes 128 and 0.
\<close>

theorem scenario_A_code:
  "process_memory_map
     (mem_run [Malloc ex_env 128, MallocRet ex_env 0x1000, Free ex_env 0x1000] mem_init) 7 = None \<and>
   map me_size (mem_events
     (mem_run [Malloc ex_env 128, MallocRet ex_env 0x1000, Free ex_env 0x1000] mem_init)) = [128, 0]"
  by (simp add: mem_hook_defs bpf_defs ex_pid Let_def mem_init_def sizeof_memory_event_def)

text \<open>
  C4, as the code has it. A deallocation-class update of an existing record never raises
  \<open>current_usage\<close>, so the unsigned gauge does not wrap; and when the subtracted size exceeds
  the gauge, the subtraction is skipped and the gauge keeps its value.
\<close>

theorem dealloc_excess_keeps_gauge:
  assumes "process_memory_map s pid = Some mem"
  shows "\<exists>mem'. process_memory_map (update_process_memory pid sz 0 s) pid = Some mem' \<and>
           current_usage mem' \<le> current_usage mem \<and>
           (current_usage mem < sz \<longrightarrow> current_usage mem' = current_usage mem)"
  using assms
  by (simp add: update_process_memory_def process_memory_get_or_create_def
      bpf_map_lookup_elem_def Let_def account_free_le account_free_skip)

theorem dealloc_excess_keeps_gauge_witness:
  "\<exists>mem'. process_memory_map (update_process_memory 7 8192 0 ex_mem1) 7 = Some mem' \<and>
     current_usage mem' = 4096"
  using dealloc_excess_keeps_gauge [OF ex_mem1_lookup, of 8192]
  by (auto simp add: ex_rec1_def)

text \<open>
  C4 as stated fails: with a gauge of 4096 and a deallocation of 8192 the gauge is 4096
  afterwards, not 0.
\<close>

theorem dealloc_excess_counterexample:
  "map_option current_usage (process_memory_map (update_process_memory 7 8192 0 ex_mem1) 7)
     = Some 4096 \<and>
   map_option current_usage (process_memory_map (update_process_memory 7 8192 0 ex_mem1) 7)
     \<noteq> Some 0"
  by (simp add: update_process_memory_def process_memory_get_or_create_def
      bpf_map_lookup_elem_def Let_def ex_mem1_lookup account_def ex_rec1_def)

text \<open>
  C7. Along every sequence of steps of the memory probe from the loaded state, for every
  process key: once the key has a record, every later state has one, the later
  \<open>peak_usage\<close> is at least the earlier one, and it is at least the earlier \<open>current_usage\<close>
  (the same state included, with no further steps).
\<close>

theorem peak_usage_history:
  assumes "process_memory_map (mem_run hs mem_init) pid = Some a"
  shows "\<exists>b. process_memory_map (mem_run (hs @ hs') mem_init) pid = Some b \<and>
           peak_usage a \<le> peak_usage b \<and> current_usage a \<le> peak_usage b"
proof -
  have "rec_rel (process_memory_map mem_init pid) (process_memory_map (mem_run hs mem_init) pid)"
    by (rule rec_rel_run)
  with assms have inv: "current_usage a \<le> peak_usage a"
    by (simp add: rec_rel_def mem_init_def)
  have "rec_rel (process_memory_map (mem_run hs mem_init) pid)
          (process_memory_map (mem_run hs' (mem_run hs mem_init)) pid)"
    by (rule rec_rel_run)
  with assms obtain b where b: "process_memory_map (mem_run (hs @ hs') mem_init) pid = Some b"
    and le: "peak_usage a \<le> peak_usage b"
    by (auto simp add: rec_rel_def mem_run_append split: option.splits)
  from inv le have "current_usage a \<le> peak_usage b" by (rule order_trans)
  with b le show ?thesis by blast
qed

theorem peak_usage_history_witness:
  "\<exists>b. process_memory_map (mem_run ([AllocPages ex_env 0] @ [FreePages ex_env 0]) mem_init) 7
          = Some b \<and> 4096 \<le> peak_usage b"
  using peak_usage_history [of "[AllocPages ex_env 0]" 7 ex_rec1 "[FreePages ex_env 0]"]
    ex_mem1_lookup
  by (simp add: ex_mem1_def ex_rec1_def)

text \<open>
  C10. The malloc entry hook with size 0 or process id 0, the free hook with address 0 or
  process id 0, and the mmap entry hook with length 0 or process id 0 leave the whole state
  (both tables, the array and the ring) as it was.
\<close>

theorem guarded_hooks_noop:
  "(current_pid e = 0 \<or> sz = 0 \<longrightarrow> trace_malloc e sz s = s) \<and>
   (current_pid e = 0 \<or> addr = 0 \<longrightarrow> trace_free e addr s = s) \<and>
   (current_pid e = 0 \<or> len = 0 \<longrightarrow> trace_mmap_enter e len s = s)"
  by (simp add: trace_malloc_def trace_free_def trace_mmap_enter_def Let_def)

theorem guarded_hooks_noop_witness:
  "current_pid ex_env0 = 0 \<and> trace_malloc ex_env0 128 mem_init = mem_init \<and>
   trace_free ex_env 0 mem_init = mem_init \<and> trace_mmap_enter ex_env 0 mem_init = mem_init"
  using guarded_hooks_noop [of ex_env0 128 mem_init 0 0]
    guarded_hooks_noop [of ex_env 0 mem_init 0 0]
  by (simp add: ex_pid0)

text \<open>
  C3, as the code has it. When the free hook or the munmap hook passes its guard and the
  address has no entry in \<open>allocation_map\<close>, both tables are left as they were (no
  \<open>free_count\<close> changes, no gauge changes), and when the ring has room one event is appended:
  with size 0 for free, with the length argument of the call for munmap.
\<close>

theorem closing_without_entry:
  assumes "current_pid e \<noteq> 0" and "addr \<noteq> 0"
    and "bpf_map_lookup_elem (allocation_map s) addr = None"
  shows "process_memory_map (trace_free e addr s) = process_memory_map s \<and>
         allocation_map (trace_free e addr s) = allocation_map s \<and>
         process_memory_map (trace_munmap e addr sz s) = process_memory_map s \<and>
         allocation_map (trace_munmap e addr sz s) = allocation_map s \<and>
         (bpf_ringbuf_reserve (mem_events s) sizeof_memory_event \<longrightarrow>
            mem_events (trace_free e addr s) = mem_events s @
              [\<lparr>me_timestamp = ktime_get_ns_emit e, me_pid = current_pid e,
                me_tid = ucast (current_pid_tgid e), me_addr = addr, me_size = 0,
                me_old_addr = 0, me_type = alloc_type_val ALLOC_FREE, me_flags = 0,
                me_stack_id = get_stackid e, me_comm = current_comm e\<rparr>] \<and>
            mem_events (trace_munmap e addr sz s) = mem_events s @
              [\<lparr>me_timestamp = ktime_get_ns_emit e, me_pid = current_pid e,
                me_tid = ucast (current_pid_tgid e), me_addr = addr, me_size = sz,
                me_old_addr = 0, me_type = alloc_type_val ALLOC_MUNMAP, me_flags = 0,
                me_stack_id = get_stackid e, me_comm = current_comm e\<rparr>])"
  using assms
  by (simp add: trace_free_def trace_munmap_def Let_def send_memory_event_def
      bpf_ringbuf_submit_def)

theorem closing_without_entry_witness:
  "map_option free_count (process_memory_map (trace_free ex_env 0x1000 ex_mem1) 7) = Some 0 \<and>
   map me_size (mem_events (trace_free ex_env 0x1000 ex_mem1)) = [4096, 0] \<and>
   map me_size (mem_events (trace_munmap ex_env 0x1000 512 ex_mem1)) = [4096, 512]"
  using closing_without_entry [of ex_env "0x1000" ex_mem1 512]
  by (simp add: ex_pid ex_mem1_eq mem_init_def bpf_defs ex_rec1_def sizeof_memory_event_def
      ex_memory_event_def)

text \<open>
  C3 as stated fails: process 7 has a record with \<open>free_count = 0\<close> and the address
  \<open>0x1000\<close> has no entry; after the free hook, and after the munmap hook, \<open>free_count\<close> is
  still 0, and the munmap event carries the size 512 of the call, not 0.
\<close>

theorem closing_without_entry_counterexample:
  "map_option free_count (process_memory_map ex_mem1 7) = Some 0 \<and>
   bpf_map_lookup_elem (allocation_map ex_mem1) 0x1000 = None \<and>
   map_option free_count (process_memory_map (trace_free ex_env 0x1000 ex_mem1) 7) = Some 0 \<and>
   map_option free_count (process_memory_map (trace_munmap ex_env 0x1000 512 ex_mem1) 7) = Some 0 \<and>
   map me_size (mem_events (trace_munmap ex_env 0x1000 512 ex_mem1)) = [4096, 512]"
  by (simp add: trace_free_def trace_munmap_def send_memory_event_def ex_pid ex_mem1_eq
      mem_init_def bpf_defs ex_rec1_def Let_def sizeof_memory_event_def ex_memory_event_def)

subsection \<open>The correlation table\<close>

lemma allocation_map_step_none:
  assumes "allocation_map s addr = None" and "\<forall>e'. h \<noteq> MmapExit e' addr"
  shows "allocation_map (mem_step h s) addr = None"
  using assms
  by (cases h) (auto simp add: mem_hook_defs bpf_defs Let_def split: option.splits)

lemma allocation_map_run_none:
  assumes "allocation_map s addr = None" and "\<forall>h\<in>set hs. \<forall>e'. h \<noteq> MmapExit e' addr"
  shows "allocation_map (mem_run hs s) addr = None"
  using assms
proof (induction hs arbitrary: s)
  case Nil
  then show ?case by simp
next
  case (Cons h hs)
  from Cons.prems have "allocation_map (mem_step h s) addr = None"
    by (simp add: allocation_map_step_none)
  with Cons.prems show ?case by (simp add: Cons.IH)
qed

lemma take_removes:
  assumes "current_pid e \<noteq> 0" and "addr \<noteq> 0"
  shows "allocation_map (trace_free e addr s) addr = None"
    and "allocation_map (trace_munmap e addr sz s) addr = None"
  using assms
  by (auto simp add: trace_free_def trace_munmap_def bpf_defs Let_def split: option.splits)

text \<open>
  C5. After the free hook or the munmap hook has passed its guard for an address (the take),
  a lookup of that address in \<open>allocation_map\<close> returns nothing, and it stays so along every
  sequence of steps that contains no mmap exit returning that address (the only put).
\<close>

theorem take_exactly_once:
  assumes "current_pid e \<noteq> 0" and "addr \<noteq> 0"
    and "tk = Free e addr \<or> tk = Munmap e addr sz"
    and "\<forall>h\<in>set hs. \<forall>e'. h \<noteq> MmapExit e' addr"
  shows "bpf_map_lookup_elem (allocation_map (mem_run (tk # hs) s)) addr = None"
proof -
  from assms(1-3) have "allocation_map (mem_step tk s) addr = None"
    by (auto simp add: take_removes)
  with assms(4) show ?thesis
    by (simp add: bpf_map_lookup_elem_def allocation_map_run_none)
qed

theorem take_exactly_once_witness:
  "bpf_map_lookup_elem (allocation_map ex_mem2) 0x7000 \<noteq> None \<and>
   bpf_map_lookup_elem
     (allocation_map (mem_run (Munmap ex_env 0x7000 4096 # [Malloc ex_env 16]) ex_mem2)) 0x7000
     = None"
  using take_exactly_once [of ex_env "0x7000" "Munmap ex_env 0x7000 4096" 4096
      "[Malloc ex_env 16]" ex_mem2]
  by (simp add: ex_pid ex_mem2_entry bpf_map_lookup_elem_def)

section \<open>Claims about event emission\<close>

text \<open>
  C2, as the code has it. Each of the three emission helpers, called while
  \<^verbatim>\<open>bpf_ringbuf_reserve\<close> fails, returns the state it was given: the record is dropped and
  nothing is written, no counter either. (The helpers are non-recursive definitions, so they
  return on every input.)
\<close>

theorem full_channel_drops:
  "(\<not> bpf_ringbuf_reserve (mem_events s) sizeof_memory_event \<longrightarrow>
      send_memory_event e pid addr sz ty old_addr s = s) \<and>
   (\<not> bpf_ringbuf_reserve (tcp_events t) sizeof_tcp_event \<longrightarrow>
      send_event e event_type sk bytes rtt t = t) \<and>
   (\<not> bpf_ringbuf_reserve (cpu_events c) sizeof_cpu_sample \<longrightarrow>
      send_cpu_sample e task cpu runtime c = c)"
  by (simp add: send_memory_event_def send_event_def send_cpu_sample_def)

theorem full_channel_drops_witness:
  "\<not> bpf_ringbuf_reserve (mem_events ex_mem_full_ring) sizeof_memory_event \<and>
   send_memory_event ex_env 7 0 128 1 0 ex_mem_full_ring = ex_mem_full_ring"
  using full_channel_drops [where s = ex_mem_full_ring and e = ex_env and pid = 7 and addr = 0
      and sz = 128 and ty = 1 and old_addr = 0] ex_full_ring
  by simp

text \<open>
  C2 as stated fails: on a full ring the state after the call is the state before it, so no
  quantity read from the state has grown by one.
\<close>

theorem full_channel_counterexample:
  "\<not> bpf_ringbuf_reserve (mem_events ex_mem_full_ring) sizeof_memory_event \<and>
   send_memory_event ex_env 7 0 128 1 0 ex_mem_full_ring = ex_mem_full_ring \<and>
   \<not> (\<exists>drops :: mem_state \<Rightarrow> nat.
        drops (send_memory_event ex_env 7 0 128 1 0 ex_mem_full_ring)
          = Suc (drops ex_mem_full_ring))"
  by (simp add: send_memory_event_def ex_full_ring)

section \<open>Claims about the TCP flow monitor\<close>

lemma rtt_zero_step: "rtt_zero s \<Longrightarrow> rtt_zero (tcp_step h s)"
  by (cases h)
    (auto simp add: rtt_zero_def tcp_hook_defs bpf_map_lookup_elem_def bpf_map_update_elem_def
      Let_def new_flow_def split: option.splits if_splits)

lemma rtt_zero_run: "rtt_zero s \<Longrightarrow> rtt_zero (tcp_run hs s)"
  by (induction hs arbitrary: s) (simp_all add: rtt_zero_step)

text \<open>
  C9, as the code has it. A round-trip-time sample (the \<^verbatim>\<open>tcp_probe\<close> tracepoint) leaves
  \<open>flow_map\<close> as it was; when the ring has room it is forwarded in an event of type 3 whose
  \<open>rtt\<close> is the sample and whose \<open>bytes\<close> is \<open>snd_nxt - snd_una\<close>; and in every state reached from
  the loaded probe every flow record has \<open>rtt_total = 0\<close> and \<open>rtt_samples = 0\<close>.
\<close>

theorem rtt_sample_forwarded:
  "flow_map (trace_tcp_probe e sk snd_nxt snd_una srtt s) = flow_map s \<and>
   (bpf_ringbuf_reserve (tcp_events s) sizeof_tcp_event \<longrightarrow>
      (\<exists>ev. tcp_events (trace_tcp_probe e sk snd_nxt snd_una srtt s) = tcp_events s @ [ev] \<and>
            te_event_type ev = 3 \<and> te_rtt ev = srtt \<and> te_bytes ev = snd_nxt - snd_una)) \<and>
   (flow_map (tcp_run hs tcp_init) k = Some f \<longrightarrow> rtt_total f = 0 \<and> rtt_samples f = 0)"
proof -
  have "rtt_zero tcp_init" by (simp add: rtt_zero_def tcp_init_def)
  then have "rtt_zero (tcp_run hs tcp_init)" by (rule rtt_zero_run)
  then show ?thesis
    by (simp add: rtt_zero_def trace_tcp_probe_def send_event_def bpf_ringbuf_submit_def Let_def)
qed

theorem rtt_sample_forwarded_witness:
  "bpf_ringbuf_reserve (tcp_events ex_tcp1) sizeof_tcp_event \<and>
   flow_map (trace_tcp_probe ex_env ex_sock 2000 1000 50 ex_tcp1) = flow_map ex_tcp1 \<and>
   (\<exists>ev. tcp_events (trace_tcp_probe ex_env ex_sock 2000 1000 50 ex_tcp1)
           = tcp_events ex_tcp1 @ [ev] \<and> te_rtt ev = 50) \<and>
   flow_map (tcp_run [TcpSendmsg ex_env ex_sock 100] tcp_init) (sock_flow_key ex_sock)
     = Some ex_flow1 \<and>
   rtt_total ex_flow1 = 0 \<and> rtt_samples ex_flow1 = 0"
proof -
  have room: "bpf_ringbuf_reserve (tcp_events ex_tcp1) sizeof_tcp_event"
    by (simp add: ex_tcp1_eq bpf_defs sizeof_tcp_event_def)
  have hit: "flow_map (tcp_run [TcpSendmsg ex_env ex_sock 100] tcp_init) (sock_flow_key ex_sock)
      = Some ex_flow1"
    using ex_tcp1_eq by (simp add: ex_tcp1_def)
  from room hit
    rtt_sample_forwarded [where e = ex_env and sk = ex_sock and snd_nxt = 2000
      and snd_una = 1000 and srtt = 50 and s = ex_tcp1
      and hs = "[TcpSendmsg ex_env ex_sock 100]" and k = "sock_flow_key ex_sock"
      and f = ex_flow1]
  show ?thesis by blast
qed

text \<open>
  C9 as stated fails: after 100 bytes were sent on a flow and a sample of 50 was observed
  on its socket, the flow's record has \<open>rtt_total = 0\<close> and \<open>rtt_samples = 0\<close>.
\<close>

theorem rtt_sample_counterexample:
  "map_option (\<lambda>f. (rtt_total f, rtt_samples f))
     (flow_map (tcp_run [TcpSendmsg ex_env ex_sock 100, TcpProbe ex_env ex_sock 2000 1000 50]
        tcp_init) (sock_flow_key ex_sock)) = Some (0, 0)"
  using ex_tcp1_eq
  by (simp add: ex_tcp1_def trace_tcp_probe_def Let_def ex_flow1_def)

section \<open>Claims about the CPU profiler\<close>

lemma observe_cpu_fields [simp]:
  "total_runtime (observe_cpu cpu st) = total_runtime st"
  "schedule_count (observe_cpu cpu st) = schedule_count st"
  "voluntary_switches (observe_cpu cpu st) = voluntary_switches st"
  "involuntary_switches (observe_cpu cpu st) = involuntary_switches st"
  "ps_last_seen (observe_cpu cpu st) = ps_last_seen st"
  by (simp_all add: observe_cpu_def Let_def)

lemma sched_switch_cpu_process_map [simp]:
  "process_map (sched_switch_cpu e s) = process_map s"
  by (simp add: sched_switch_cpu_def Let_def split: option.splits)

lemma send_cpu_sample_process_map [simp]:
  "process_map (send_cpu_sample e task cpu rt s) = process_map s"
  by (simp add: send_cpu_sample_def)

lemma ex_cpu1_map: "process_map ex_cpu1 = [7 \<mapsto> ex_stats7, 9 \<mapsto> ex_stats9]"
  by (simp add: ex_cpu1_def trace_sched_switch_def sched_switch_prev_def sched_switch_next_def
      bpf_defs cpu_init_def Let_def new_stats_def MAX_ENTRIES_def ex_stats7_def ex_stats9_def
      word_gt_0)

lemma sched_switch_prev_hit:
  assumes "prev_pid \<noteq> 0" and "process_map s prev_pid = Some st"
  shows "process_map (sched_switch_prev e prev_pid prev_state s) =
    (process_map s)(prev_pid \<mapsto>
       (let st1 = observe_cpu (smp_processor_id e) (st\<lparr>ps_last_seen := ktime_get_ns e\<rparr>)
        in if prev_state = TASK_RUNNING
           then st1\<lparr>involuntary_switches := involuntary_switches st1 + 1\<rparr>
           else st1\<lparr>voluntary_switches := voluntary_switches st1 + 1\<rparr>))"
  using assms
  by (simp add: sched_switch_prev_def bpf_map_lookup_elem_def Let_def word_gt_0)

lemma sched_switch_next_lookup:
  "process_map (sched_switch_next e next_pid s) p =
     (if p = next_pid \<and> next_pid \<noteq> 0 then
        (case process_map s next_pid of
           None \<Rightarrow> if card (dom (process_map s)) < MAX_ENTRIES
                    then Some (new_stats\<lparr>schedule_count := 1, ps_last_seen := ktime_get_ns e,
                                 min_cpu := smp_processor_id e, max_cpu := smp_processor_id e\<rparr>)
                    else None
         | Some st \<Rightarrow> Some (observe_cpu (smp_processor_id e)
                      (st\<lparr>schedule_count := schedule_count st + 1,
                          ps_last_seen := ktime_get_ns e\<rparr>)))
      else process_map s p)"
  by (auto simp add: sched_switch_next_def bpf_map_lookup_elem_def bpf_map_update_elem_def
      Let_def word_gt_0 split: option.splits)

text \<open>
  C8. Scenario D asks that a scheduler switch increments \<open>involuntary_switches\<close> of the
  outgoing task when its prior state was runnable and \<open>voluntary_switches\<close> otherwise. The code
  is evaluated on the loaded probe, where task 7 is switched out for task 9 and seen for the
  first time: its record is created with both switch counters at 0, whatever the prior
  state, while the record created for the incoming task 9 by the same event does count it
  (\<open>schedule_count = 1\<close>). After two switches away from the runnable task 7 its
  \<open>involuntary_switches\<close> is 1.
\<close>

theorem sched_switch_first_observation_code:
  "map_option involuntary_switches
     (process_map (trace_sched_switch ex_env 7 TASK_RUNNING 9 cpu_init) 7) = Some 0 \<and>
   map_option voluntary_switches
     (process_map (trace_sched_switch ex_env 7 1 9 cpu_init) 7) = Some 0 \<and>
   map_option schedule_count
     (process_map (trace_sched_switch ex_env 7 TASK_RUNNING 9 cpu_init) 9) = Some 1 \<and>
   map_option involuntary_switches
     (process_map (cpu_run [SchedSwitch ex_env 7 TASK_RUNNING 9,
                            SchedSwitch ex_env 7 TASK_RUNNING 9] cpu_init) 7) = Some 1"
  by (simp add: trace_sched_switch_def sched_switch_next_lookup
      sched_switch_prev_def bpf_defs cpu_init_def Let_def new_stats_def
      MAX_ENTRIES_def word_gt_0 TASK_RUNNING_def)

text \<open>
  Once the outgoing task has a record, the code does what Scenario D says. For a scheduler
  switch whose outgoing task id is nonzero and has a record: \<open>involuntary_switches\<close> of that
  record grows by one (modulo \<open>2^64\<close>) and \<open>voluntary_switches\<close> stays when the prior state is
  \<^verbatim>\<open>TASK_RUNNING\<close>, and the other way round otherwise. When the incoming task id is nonzero,
  \<open>schedule_count\<close> of its record grows by one if it has a record, and is 1 in the record
  created for it if it has none and the table holds fewer than \<^verbatim>\<open>MAX_ENTRIES\<close> keys; an
  incoming task id of 0 is skipped and key 0 is left as it was.
\<close>

theorem sched_switch_counters:
  assumes "prev_pid \<noteq> 0" and "process_map s prev_pid = Some st"
  shows "(\<exists>st'. process_map (trace_sched_switch e prev_pid prev_state next_pid s) prev_pid
              = Some st' \<and>
            (prev_state = TASK_RUNNING \<longrightarrow>
               involuntary_switches st' = involuntary_switches st + 1 \<and>
               voluntary_switches st' = voluntary_switches st) \<and>
            (prev_state \<noteq> TASK_RUNNING \<longrightarrow>
               voluntary_switches st' = voluntary_switches st + 1 \<and>
               involuntary_switches st' = involuntary_switches st)) \<and>
         (next_pid \<noteq> 0 \<longrightarrow>
            (\<forall>nt. process_map s next_pid = Some nt \<longrightarrow>
               map_option schedule_count
                 (process_map (trace_sched_switch e prev_pid prev_state next_pid s) next_pid)
               = Some (schedule_count nt + 1)) \<and>
            (process_map s next_pid = None \<and> card (dom (process_map s)) < MAX_ENTRIES \<longrightarrow>
               map_option schedule_count
                 (process_map (trace_sched_switch e prev_pid prev_state next_pid s) next_pid)
               = Some 1)) \<and>
         (next_pid = 0 \<longrightarrow>
            process_map (trace_sched_switch e prev_pid prev_state next_pid s) next_pid
              = process_map s next_pid)"
proof -
  from assms(2) have "prev_pid \<in> dom (process_map s)" by (rule domI)
  then have dom_eq: "insert prev_pid (dom (process_map s)) = dom (process_map s)"
    by (rule insert_absorb)
  show ?thesis
    using assms
    by (auto simp add: trace_sched_switch_def sched_switch_next_lookup dom_eq
        sched_switch_prev_hit [OF assms] Let_def new_stats_def)
qed

theorem sched_switch_counters_witness:
  "map_option involuntary_switches
     (process_map (trace_sched_switch ex_env 7 0 9 ex_cpu1) 7) = Some 1 \<and>
   map_option schedule_count
     (process_map (trace_sched_switch ex_env 7 0 9 ex_cpu1) 9) = Some 2"
  using sched_switch_counters [where prev_pid = 7 and s = ex_cpu1 and st = ex_stats7
      and e = ex_env and prev_state = 0 and next_pid = 9]
  by (auto simp add: ex_cpu1_map TASK_RUNNING_def ex_stats7_def ex_stats9_def)

section \<open>Claims about the keyed tables\<close>

subsection \<open>A table at capacity\<close>

lemma unat_small: "n \<le> 10240 \<Longrightarrow> unat (word_of_nat n :: u32) = n"
  by (simp add: unat_of_nat)

lemma full_set: "{pid::u32. 0 < pid \<and> pid \<le> 10240} = word_of_nat ` {1..10240::nat}"
proof (rule set_eqI, rule iffI)
  fix pid :: u32
  assume "pid \<in> {pid. 0 < pid \<and> pid \<le> 10240}"
  then have a: "0 < pid" and b: "pid \<le> 10240" by simp_all
  from a have "0 < unat pid" by (simp add: word_less_nat_alt)
  moreover from b have "unat pid \<le> 10240" by (simp add: word_le_nat_alt)
  ultimately have "unat pid \<in> {1..10240}" by simp
  moreover have "pid = word_of_nat (unat pid)" by simp
  ultimately show "pid \<in> word_of_nat ` {1..10240::nat}" by (rule rev_image_eqI)
next
  fix pid :: u32
  assume "pid \<in> word_of_nat ` {1..10240::nat}"
  then obtain n :: nat where n: "1 \<le> n" "n \<le> 10240" and p: "pid = word_of_nat n" by auto
  from n have "unat (word_of_nat n :: u32) = n" by (simp add: unat_small)
  with n p show "pid \<in> {pid. 0 < pid \<and> pid \<le> 10240}"
    by (simp add: word_less_nat_alt word_le_nat_alt)
qed

lemma full_inj: "inj_on (word_of_nat :: nat \<Rightarrow> u32) {1..10240}"
proof (rule inj_onI)
  fix x y :: nat
  assume "x \<in> {1..10240}" and "y \<in> {1..10240}"
  then have x: "x \<le> 10240" and y: "y \<le> 10240" by simp_all
  assume "(word_of_nat x :: u32) = word_of_nat y"
  then have "unat (word_of_nat x :: u32) = unat (word_of_nat y :: u32)" by (rule arg_cong)
  then show "x = y" by (simp only: unat_small [OF x] unat_small [OF y])
qed

lemma full_card: "card {pid::u32. 0 < pid \<and> pid \<le> 10240} = 10240"
  by (simp only: full_set card_image [OF full_inj] card_atLeastAtMost)

lemma ex_full_table_card: "card (dom ex_full_table) = 10240"
proof -
  have "dom ex_full_table = {pid. 0 < pid \<and> pid \<le> 10240}"
    by (auto simp add: ex_full_table_def dom_def)
  then show ?thesis by (simp only: full_card)
qed

lemma ex_full_table_miss: "ex_full_table 20000 = None"
  by (simp add: ex_full_table_def)

subsection \<open>Keys are never removed\<close>

lemma flow_map_step_keeps: "flow_map s k \<noteq> None \<Longrightarrow> flow_map (tcp_step h s) k \<noteq> None"
  by (cases h)
    (auto simp add: tcp_hook_defs bpf_map_lookup_elem_def bpf_map_update_elem_def
      Let_def split: option.splits if_splits)

lemma flow_map_run_keeps: "flow_map s k \<noteq> None \<Longrightarrow> flow_map (tcp_run hs s) k \<noteq> None"
proof (induction hs arbitrary: s)
  case Nil
  then show ?case by simp
next
  case (Cons h hs)
  from Cons.prems have "flow_map (tcp_step h s) k \<noteq> None"
    by (rule flow_map_step_keeps)
  then have "flow_map (tcp_run hs (tcp_step h s)) k \<noteq> None"
    by (rule Cons.IH)
  then show ?case by simp
qed

lemma percpu_hooks_process_map [simp]:
  "process_map (trace_cpu_frequency e cpu_id freq s) = process_map s"
  "process_map (trace_cpu_idle e idle_state s) = process_map s"
  "process_map (trace_irq_entry e s) = process_map s"
  "process_map (trace_softirq_entry e s) = process_map s"
  "process_map (trace_sched_wakeup e task target_cpu s) = process_map s"
  by (simp_all add: trace_cpu_frequency_def trace_cpu_idle_def trace_irq_entry_def
      trace_softirq_entry_def trace_sched_wakeup_def Let_def split: option.splits)

lemma sched_switch_prev_keeps:
  "process_map s p \<noteq> None \<Longrightarrow> process_map (sched_switch_prev e prev_pid prev_state s) p \<noteq> None"
  by (auto simp add: sched_switch_prev_def bpf_map_lookup_elem_def bpf_map_update_elem_def
      Let_def split: option.splits if_splits)

lemma sched_switch_next_keeps:
  "process_map s p \<noteq> None \<Longrightarrow> process_map (sched_switch_next e next_pid s) p \<noteq> None"
  by (auto simp add: sched_switch_next_lookup split: option.splits)

lemma process_map_step_keeps:
  "process_map s p \<noteq> None \<Longrightarrow> process_map (cpu_step h s) p \<noteq> None"
proof (cases h)
  case (SchedSwitch e prev_pid prev_state next_pid)
  assume "process_map s p \<noteq> None"
  then have "process_map (sched_switch_next e next_pid (sched_switch_prev e prev_pid prev_state s)) p
      \<noteq> None"
    by (intro sched_switch_next_keeps sched_switch_prev_keeps)
  with SchedSwitch show ?thesis by (simp add: trace_sched_switch_def)
next
  case (SampleCpuPerf e task)
  assume "process_map s p \<noteq> None"
  with SampleCpuPerf show ?thesis
    by (auto simp add: sample_cpu_perf_def bpf_map_lookup_elem_def bpf_map_update_elem_def
        Let_def split: option.splits if_splits)
next
  case (FinishTaskSwitch e prev)
  assume "process_map s p \<noteq> None"
  with FinishTaskSwitch show ?thesis
    by (auto simp add: finish_task_switch_def bpf_map_lookup_elem_def Let_def
        split: option.splits if_splits)
qed simp_all

lemma process_map_run_keeps:
  "process_map s p \<noteq> None \<Longrightarrow> process_map (cpu_run hs s) p \<noteq> None"
proof (induction hs arbitrary: s)
  case Nil
  then show ?case by simp
next
  case (Cons h hs)
  from Cons.prems have "process_map (cpu_step h s) p \<noteq> None"
    by (rule process_map_step_keeps)
  then have "process_map (cpu_run hs (cpu_step h s)) p \<noteq> None"
    by (rule Cons.IH)
  then show ?case by simp
qed

lemma process_memory_map_run_keeps:
  "process_memory_map s pid \<noteq> None \<Longrightarrow> process_memory_map (mem_run hs s) pid \<noteq> None"
  using rec_rel_run [of s pid hs]
  by (auto simp add: rec_rel_def split: option.splits)

lemma upm_hit:
  "process_memory_map s pid = Some mem \<Longrightarrow>
   process_memory_map (update_process_memory pid sz a s)
     = (process_memory_map s)(pid \<mapsto> account mem sz a)"
  by (simp add: update_process_memory_def process_memory_get_or_create_def
      bpf_map_lookup_elem_def Let_def)

lemma upm_miss_room:
  "process_memory_map s pid = None \<Longrightarrow> card (dom (process_memory_map s)) < MAX_ENTRIES \<Longrightarrow>
   process_memory_map (update_process_memory pid sz a s)
     = (process_memory_map s)(pid \<mapsto> account new_mem sz a)"
  by (simp add: update_process_memory_def process_memory_get_or_create_def
      bpf_map_lookup_elem_def bpf_map_update_elem_def Let_def)

lemma upm_miss_full:
  "process_memory_map s pid = None \<Longrightarrow> MAX_ENTRIES \<le> card (dom (process_memory_map s)) \<Longrightarrow>
   update_process_memory pid sz a s = s"
  by (simp add: update_process_memory_def process_memory_get_or_create_def
      bpf_map_lookup_elem_def bpf_map_update_elem_def Let_def)

lemma sendmsg_hit:
  "flow_map t (sock_flow_key sk) = Some fl \<Longrightarrow>
   flow_map (tcp_sendmsg e sk n t)
     = (flow_map t)(sock_flow_key sk \<mapsto>
         fl\<lparr>bytes_tx := bytes_tx fl + n, packets_tx := packets_tx fl + 1,
            last_seen := ktime_get_ns e\<rparr>)"
  by (simp add: tcp_sendmsg_def bpf_map_lookup_elem_def Let_def)

lemma sendmsg_miss_room:
  "flow_map t (sock_flow_key sk) = None \<Longrightarrow> card (dom (flow_map t)) < MAX_ENTRIES \<Longrightarrow>
   flow_map (tcp_sendmsg e sk n t)
     = (flow_map t)(sock_flow_key sk \<mapsto>
         new_flow\<lparr>first_seen := ktime_get_ns e, last_seen := ktime_get_ns e, bytes_tx := n,
                   packets_tx := 1\<rparr>)"
  by (simp add: tcp_sendmsg_def bpf_map_lookup_elem_def bpf_map_update_elem_def Let_def)

lemma sendmsg_miss_full:
  "flow_map t (sock_flow_key sk) = None \<Longrightarrow> MAX_ENTRIES \<le> card (dom (flow_map t)) \<Longrightarrow>
   flow_map (tcp_sendmsg e sk n t) = flow_map t"
  by (simp add: tcp_sendmsg_def bpf_map_lookup_elem_def bpf_map_update_elem_def Let_def)

lemma next_hit:
  "next_pid \<noteq> 0 \<Longrightarrow> process_map c next_pid = Some st \<Longrightarrow>
   process_map (sched_switch_next e next_pid c)
     = (process_map c)(next_pid \<mapsto> observe_cpu (smp_processor_id e)
          (st\<lparr>schedule_count := schedule_count st + 1, ps_last_seen := ktime_get_ns e\<rparr>))"
  by (simp add: sched_switch_next_def bpf_map_lookup_elem_def Let_def word_gt_0)

lemma next_miss_room:
  "next_pid \<noteq> 0 \<Longrightarrow> process_map c next_pid = None \<Longrightarrow>
   card (dom (process_map c)) < MAX_ENTRIES \<Longrightarrow>
   process_map (sched_switch_next e next_pid c)
     = (process_map c)(next_pid \<mapsto>
          new_stats\<lparr>schedule_count := 1, ps_last_seen := ktime_get_ns e,
                     min_cpu := smp_processor_id e, max_cpu := smp_processor_id e\<rparr>)"
  by (simp add: sched_switch_next_def bpf_map_lookup_elem_def bpf_map_update_elem_def
      Let_def word_gt_0)

lemma next_miss_full:
  "next_pid \<noteq> 0 \<Longrightarrow> process_map c next_pid = None \<Longrightarrow>
   MAX_ENTRIES \<le> card (dom (process_map c)) \<Longrightarrow>
   sched_switch_next e next_pid c = c"
  by (simp add: sched_switch_next_def bpf_map_lookup_elem_def bpf_map_update_elem_def
      Let_def word_gt_0)

subsection \<open>What every hook stores in its table\<close>

lemma upm_ignores_allocation_map:
  "process_memory_map (update_process_memory pid sz a (s\<lparr>allocation_map := am\<rparr>))
     = process_memory_map (update_process_memory pid sz a s)"
  by (simp add: update_process_memory_def Let_def split: option.splits)

lemma page_fault_hit:
  "current_pid e \<noteq> 0 \<Longrightarrow> process_memory_map s (current_pid e) = Some mem \<Longrightarrow>
   process_memory_map (trace_page_fault e address ec s)
     = (process_memory_map s)(current_pid e \<mapsto>
         (if ec AND 4 \<noteq> 0
          then mem\<lparr>page_faults := page_faults mem + 1, major_faults := major_faults mem + 1\<rparr>
          else mem\<lparr>page_faults := page_faults mem + 1\<rparr>))"
  by (simp add: trace_page_fault_def process_memory_get_or_create_def
      bpf_map_lookup_elem_def Let_def)

lemma page_fault_miss_room:
  "current_pid e \<noteq> 0 \<Longrightarrow> process_memory_map s (current_pid e) = None \<Longrightarrow>
   card (dom (process_memory_map s)) < MAX_ENTRIES \<Longrightarrow>
   process_memory_map (trace_page_fault e address ec s)
     = (process_memory_map s)(current_pid e \<mapsto>
         (if ec AND 4 \<noteq> 0
          then new_mem\<lparr>page_faults := 1, major_faults := 1\<rparr>
          else new_mem\<lparr>page_faults := 1\<rparr>))"
  by (simp add: trace_page_fault_def process_memory_get_or_create_def
      bpf_map_lookup_elem_def bpf_map_update_elem_def Let_def new_mem_def)

lemma page_fault_miss_full:
  "current_pid e \<noteq> 0 \<Longrightarrow> process_memory_map s (current_pid e) = None \<Longrightarrow>
   MAX_ENTRIES \<le> card (dom (process_memory_map s)) \<Longrightarrow>
   trace_page_fault e address ec s = s"
  by (simp add: trace_page_fault_def process_memory_get_or_create_def
      bpf_map_lookup_elem_def bpf_map_update_elem_def Let_def)

lemma sample_hit:
  "current_pid e \<noteq> 0 \<Longrightarrow> process_memory_map s (current_pid e) = Some mem \<Longrightarrow>
   process_memory_map (sample_memory_stats e (Some (rss, vmem)) s)
     = (process_memory_map s)(current_pid e \<mapsto> mem\<lparr>rss_pages := rss, vmem_pages := vmem\<rparr>)"
  by (simp add: sample_memory_stats_def process_memory_get_or_create_def
      bpf_map_lookup_elem_def Let_def)

lemma sample_miss_room:
  "current_pid e \<noteq> 0 \<Longrightarrow> process_memory_map s (current_pid e) = None \<Longrightarrow>
   card (dom (process_memory_map s)) < MAX_ENTRIES \<Longrightarrow>
   process_memory_map (sample_memory_stats e (Some (rss, vmem)) s)
     = (process_memory_map s)(current_pid e \<mapsto>
         new_mem\<lparr>rss_pages := rss, vmem_pages := vmem\<rparr>)"
  by (simp add: sample_memory_stats_def process_memory_get_or_create_def
      bpf_map_lookup_elem_def bpf_map_update_elem_def Let_def)

lemma sample_miss_full:
  "current_pid e \<noteq> 0 \<Longrightarrow> process_memory_map s (current_pid e) = None \<Longrightarrow>
   MAX_ENTRIES \<le> card (dom (process_memory_map s)) \<Longrightarrow>
   sample_memory_stats e (Some (rss, vmem)) s = s"
  by (simp add: sample_memory_stats_def process_memory_get_or_create_def
      bpf_map_lookup_elem_def bpf_map_update_elem_def Let_def)

lemma pages_hooks_via_upm:
  "current_pid e \<noteq> 0 \<Longrightarrow>
   process_memory_map (alloc_pages e order s)
     = process_memory_map (update_process_memory (current_pid e) (pages_to_bytes order) 1 s) \<and>
   process_memory_map (free_pages e order s)
     = process_memory_map (update_process_memory (current_pid e) (pages_to_bytes order) 0 s)"
  by (simp add: alloc_pages_def free_pages_def Let_def)

lemma closing_hooks_via_upm:
  "current_pid e \<noteq> 0 \<Longrightarrow> addr \<noteq> 0 \<Longrightarrow> allocation_map s addr = Some info \<Longrightarrow>
   process_memory_map (trace_free e addr s)
     = process_memory_map (update_process_memory (current_pid e) (ai_size info) 0 s) \<and>
   process_memory_map (trace_munmap e addr msz s)
     = process_memory_map (update_process_memory (current_pid e) msz 0 s)"
  by (simp add: trace_free_def trace_munmap_def bpf_map_lookup_elem_def Let_def
      upm_ignores_allocation_map)

lemma mem_other_hooks:
  "process_memory_map (trace_malloc e sz s) = process_memory_map s \<and>
   process_memory_map (trace_malloc_ret e addr s) = process_memory_map s \<and>
   process_memory_map (trace_mmap_enter e sz s) = process_memory_map s \<and>
   process_memory_map (trace_mmap_exit e addr s) = process_memory_map s \<and>
   process_memory_map (trace_brk e addr s) = process_memory_map s \<and>
   process_memory_map (trace_memory_pressure s) = process_memory_map s \<and>
   process_memory_map (trace_oom_victim e pid s) = process_memory_map s \<and>
   process_memory_map (mem_step MemConsume s) = process_memory_map s \<and>
   sample_memory_stats e None s = s"
  by (simp add: trace_malloc_def trace_malloc_ret_def trace_mmap_enter_def trace_mmap_exit_def
      trace_brk_def trace_memory_pressure_def trace_oom_victim_def sample_memory_stats_def Let_def)

lemma mem_guarded_hooks:
  "current_pid e = 0 \<Longrightarrow>
   trace_page_fault e address ec s = s \<and> sample_memory_stats e mm s = s \<and>
   alloc_pages e order s = s \<and> free_pages e order s = s"
  by (simp add: trace_page_fault_def sample_memory_stats_def alloc_pages_def free_pages_def
      Let_def)

lemma mem_closing_miss:
  "allocation_map s addr = None \<Longrightarrow>
   process_memory_map (trace_free e addr s) = process_memory_map s \<and>
   process_memory_map (trace_munmap e addr msz s) = process_memory_map s"
  by (simp add: trace_free_def trace_munmap_def bpf_map_lookup_elem_def Let_def)

lemma cleanup_hit:
  "0 < sint copied \<Longrightarrow> flow_map t (sock_flow_key sk) = Some fl \<Longrightarrow>
   flow_map (tcp_cleanup_rbuf e sk copied t)
     = (flow_map t)(sock_flow_key sk \<mapsto>
         fl\<lparr>bytes_rx := bytes_rx fl + scast copied, packets_rx := packets_rx fl + 1,
            last_seen := ktime_get_ns e\<rparr>)"
  by (simp add: tcp_cleanup_rbuf_def bpf_map_lookup_elem_def Let_def not_le)

lemma cleanup_miss_room:
  "0 < sint copied \<Longrightarrow> flow_map t (sock_flow_key sk) = None \<Longrightarrow>
   card (dom (flow_map t)) < MAX_ENTRIES \<Longrightarrow>
   flow_map (tcp_cleanup_rbuf e sk copied t)
     = (flow_map t)(sock_flow_key sk \<mapsto>
         new_flow\<lparr>first_seen := ktime_get_ns e, last_seen := ktime_get_ns e,
                   bytes_rx := scast copied, packets_rx := 1\<rparr>)"
  by (simp add: tcp_cleanup_rbuf_def bpf_map_lookup_elem_def bpf_map_update_elem_def Let_def
      not_le)

lemma cleanup_miss_full:
  "0 < sint copied \<Longrightarrow> flow_map t (sock_flow_key sk) = None \<Longrightarrow>
   MAX_ENTRIES \<le> card (dom (flow_map t)) \<Longrightarrow>
   flow_map (tcp_cleanup_rbuf e sk copied t) = flow_map t"
  by (simp add: tcp_cleanup_rbuf_def bpf_map_lookup_elem_def bpf_map_update_elem_def Let_def
      not_le)

lemma tcp_other_hooks:
  "flow_map (trace_tcp_state_change e sk family oldstate newstate t) = flow_map t \<and>
   flow_map (trace_tcp_probe e sk snd_nxt snd_una srtt t) = flow_map t \<and>
   flow_map (trace_tcp_retransmit e sk t) = flow_map t \<and>
   flow_map (tcp_step TcpConsume t) = flow_map t \<and>
   (sint copied \<le> 0 \<longrightarrow> tcp_cleanup_rbuf e sk copied t = t)"
  by (simp add: trace_tcp_state_change_def trace_tcp_probe_def trace_tcp_retransmit_def
      tcp_cleanup_rbuf_def Let_def)

lemma prev_hit:
  "prev_pid \<noteq> 0 \<Longrightarrow> process_map c prev_pid = Some st \<Longrightarrow>
   process_map (sched_switch_prev e prev_pid prev_state c)
     = (process_map c)(prev_pid \<mapsto>
         (if prev_state = TASK_RUNNING
          then (observe_cpu (smp_processor_id e) (st\<lparr>ps_last_seen := ktime_get_ns e\<rparr>))
                 \<lparr>involuntary_switches := involuntary_switches st + 1\<rparr>
          else (observe_cpu (smp_processor_id e) (st\<lparr>ps_last_seen := ktime_get_ns e\<rparr>))
                 \<lparr>voluntary_switches := voluntary_switches st + 1\<rparr>))"
  by (simp add: sched_switch_prev_def bpf_map_lookup_elem_def Let_def word_gt_0)

lemma prev_miss_room:
  "prev_pid \<noteq> 0 \<Longrightarrow> process_map c prev_pid = None \<Longrightarrow>
   card (dom (process_map c)) < MAX_ENTRIES \<Longrightarrow>
   process_map (sched_switch_prev e prev_pid prev_state c)
     = (process_map c)(prev_pid \<mapsto>
         new_stats\<lparr>ps_last_seen := ktime_get_ns e, min_cpu := smp_processor_id e,
                    max_cpu := smp_processor_id e\<rparr>)"
  by (simp add: sched_switch_prev_def bpf_map_lookup_elem_def bpf_map_update_elem_def
      Let_def word_gt_0)

lemma prev_miss_full:
  "prev_pid \<noteq> 0 \<Longrightarrow> process_map c prev_pid = None \<Longrightarrow>
   MAX_ENTRIES \<le> card (dom (process_map c)) \<Longrightarrow>
   sched_switch_prev e prev_pid prev_state c = c"
  by (simp add: sched_switch_prev_def bpf_map_lookup_elem_def bpf_map_update_elem_def
      Let_def word_gt_0)

lemma perf_hit:
  "current_pid e \<noteq> 0 \<Longrightarrow> process_map c (current_pid e) = Some st \<Longrightarrow>
   process_map (sample_cpu_perf e task c)
     = (process_map c)(current_pid e \<mapsto> observe_cpu (smp_processor_id e)
         (st\<lparr>total_runtime := total_runtime st + 1, ps_last_seen := ktime_get_ns e\<rparr>))"
  by (simp add: sample_cpu_perf_def bpf_map_lookup_elem_def Let_def)

lemma perf_miss_room:
  "current_pid e \<noteq> 0 \<Longrightarrow> process_map c (current_pid e) = None \<Longrightarrow>
   card (dom (process_map c)) < MAX_ENTRIES \<Longrightarrow>
   process_map (sample_cpu_perf e task c)
     = (process_map c)(current_pid e \<mapsto>
         new_stats\<lparr>total_runtime := 1, ps_last_seen := ktime_get_ns e,
                    min_cpu := smp_processor_id e, max_cpu := smp_processor_id e\<rparr>)"
  by (simp add: sample_cpu_perf_def bpf_map_lookup_elem_def bpf_map_update_elem_def Let_def)

lemma perf_miss_full:
  "current_pid e \<noteq> 0 \<Longrightarrow> process_map c (current_pid e) = None \<Longrightarrow>
   MAX_ENTRIES \<le> card (dom (process_map c)) \<Longrightarrow>
   process_map (sample_cpu_perf e task c) = process_map c"
  by (simp add: sample_cpu_perf_def bpf_map_lookup_elem_def bpf_map_update_elem_def Let_def)

lemma finish_hit:
  "task_pid prev \<noteq> 0 \<Longrightarrow> process_map c (task_pid prev) = Some st \<Longrightarrow>
   process_map (finish_task_switch e prev c)
     = (process_map c)(task_pid prev \<mapsto>
         st\<lparr>total_runtime := total_runtime st + (ktime_get_ns e - ps_last_seen st)\<rparr>)"
  by (simp add: finish_task_switch_def bpf_map_lookup_elem_def Let_def word_gt_0)

lemma finish_miss:
  "process_map c (task_pid prev) = None \<Longrightarrow> finish_task_switch e prev c = c"
  by (simp add: finish_task_switch_def bpf_map_lookup_elem_def Let_def)

lemma cpu_other_hooks:
  "process_map (sched_switch_cpu e c) = process_map c \<and>
   process_map (trace_sched_wakeup e task target_cpu c) = process_map c \<and>
   process_map (trace_cpu_frequency e cpu_id freq c) = process_map c \<and>
   process_map (trace_cpu_idle e idle_state c) = process_map c \<and>
   process_map (trace_irq_entry e c) = process_map c \<and>
   process_map (trace_softirq_entry e c) = process_map c \<and>
   process_map (cpu_step CpuConsume c) = process_map c \<and>
   sched_switch_prev e 0 prev_state c = c \<and>
   sched_switch_next e 0 c = c \<and>
   (current_pid e = 0 \<longrightarrow> sample_cpu_perf e task c = c) \<and>
   (task_pid prev = 0 \<longrightarrow> finish_task_switch e prev c = c)"
  by (simp add: sched_switch_prev_def sched_switch_next_def sample_cpu_perf_def
      finish_task_switch_def Let_def)





end
